theory Spec2Isabelle
  imports Complex_Main "HOL-Library.Char_ord" "HOL-Library.List_Lexorder" "HOL-Library.Multiset"
begin

section \<open>Oulu WebCams: the camera pipeline of \<open>js.js\<close> and of the jQuery variant\<close>

text \<open>
  The class \<open>OuluWebCams\<close> (\<open>js.js\<close>) and the older jQuery script are embedded as pure
  functions over explicit state. JavaScript numbers that hold counts, indexes and
  millisecond timestamps are integers here (all of them stay far below \<open>2^53\<close>, where
  double arithmetic on integers is exact); the value NaN of a timestamp is \<open>None\<close>.
\<close>

subsection \<open>JavaScript values\<close>

text \<open>A \<open>Date\<close> is its time value in milliseconds; \<open>None\<close> is Invalid Date (NaN).\<close>

type_synonym jsdate = "int option"

text \<open>The operator \<open>%\<close> on integers: the remainder has the sign of the dividend. (The
  divisor is never 0 where the model uses it: the code tests the length first.)\<close>

definition js_rem :: "int \<Rightarrow> int \<Rightarrow> int" where
  "js_rem a b = sgn a * (\<bar>a\<bar> mod \<bar>b\<bar>)"

text \<open>Decimal text of an integer, as template strings and \<open>toString\<close> print it.\<close>

fun showNat :: "nat \<Rightarrow> string" where
  "showNat n = (if n < 10 then [char_of (48 + n)]
                else showNat (n div 10) @ [char_of (48 + n mod 10)])"

declare showNat.simps [simp del]

definition showInt :: "int \<Rightarrow> string" where
  "showInt i = (if i < 0 then CHR ''-'' # showNat (nat (- i)) else showNat (nat i))"

text \<open>
  \<open>Array.prototype.sort\<close> with a comparator is stable; an element goes before another
  one exactly when the comparator's result on the pair is negative, and a result NaN
  (\<open>None\<close>) counts as 0. For a comparator that is a consistent order every stable sort
  returns the same array; this one inserts from the right.
\<close>

fun insertSorted :: "('a \<Rightarrow> 'a \<Rightarrow> int option) \<Rightarrow> 'a \<Rightarrow> 'a list \<Rightarrow> 'a list" where
  "insertSorted cmp x [] = [x]"
| "insertSorted cmp x (y # ys) =
     (case cmp y x of
        Some v \<Rightarrow> if v < 0 then y # insertSorted cmp x ys else x # y # ys
      | None \<Rightarrow> x # y # ys)"

definition arraySort :: "('a \<Rightarrow> 'a \<Rightarrow> int option) \<Rightarrow> 'a list \<Rightarrow> 'a list" where
  "arraySort cmp xs = foldr (insertSorted cmp) xs []"

text \<open>\<open>[...new Set(xs)]\<close>: the distinct elements in the order of their first occurrence.\<close>

fun newSet :: "'a list \<Rightarrow> 'a list \<Rightarrow> 'a list" where
  "newSet seen [] = seen"
| "newSet seen (x # xs) = (if x \<in> set seen then newSet seen xs else newSet (seen @ [x]) xs)"

subsection \<open>The API's data and the processed cameras\<close>

text \<open>
  A preset of the GraphQL response. Its \<open>measuredTime\<close> text is carried as the time
  value that \<open>new Date\<close> reads from it, which is all the code does with it.
\<close>

record preset =
  presetId :: string
  presentationName :: string
  imageUrl :: string
  measuredTime :: jsdate

text \<open>A camera station of the response; \<open>'n\<close> is the type of coordinates.\<close>

record 'n station =
  cameraId :: string
  name :: string
  lat :: 'n
  lon :: 'n
  presets :: "preset list"

text \<open>The object \<open>processCameras\<close> builds for each preset: the preset's fields (the
  spread \<open>...preset\<close>) and the station's.\<close>

record 'n camera = preset +
  stationName :: string
  cameraId :: string
  lat :: 'n
  lon :: 'n
  municipality :: string
  age :: string

subsection \<open>Municipality lookup\<close>

datatype geometryType = Polygon | MultiPolygon | OtherGeometry

record 'g geometry =
  type :: geometryType
  coordinates :: 'g

text \<open>\<open>nimi\<close> is \<open>None\<close> when the property is missing or null.\<close>

record properties =
  nimi :: "string option"

text \<open>A GeoJSON feature; \<open>None\<close> is a missing or null member.\<close>

record 'g feature =
  geometry :: "'g geometry option"
  properties :: "properties option"

datatype error = TurfError | TypeError | FetchError | HttpError

text \<open>
  The geometry library Turf.js is external: its four functions are parameters, and
  each of them may throw (\<open>Inl\<close>).
\<close>

record ('n, 'g, 'pt, 'pg) turf =
  point :: "'n \<times> 'n \<Rightarrow> error + 'pt"
  polygon :: "'g \<Rightarrow> error + 'pg"
  multiPolygon :: "'g \<Rightarrow> error + 'pg"
  booleanPointInPolygon :: "'pt \<Rightarrow> 'pg \<Rightarrow> error + bool"

text \<open>\<open>feature.properties.nimi || 'Unknown'\<close>: reading \<open>nimi\<close> of missing properties
  throws, and a missing or empty name gives \<open>'Unknown'\<close>.\<close>

definition nimiOrUnknown :: "'g feature \<Rightarrow> error + string" where
  "nimiOrUnknown feature =
     (case properties feature of
        None \<Rightarrow> Inl TypeError
      | Some props \<Rightarrow>
          (case nimi props of
             None \<Rightarrow> Inr ''Unknown''
           | Some n \<Rightarrow> if n = [] then Inr ''Unknown'' else Inr n))"

text \<open>The \<open>for ... of\<close> loop over the features, inside the \<open>try\<close>: \<open>Inr (Some r)\<close> is
  \<open>return r\<close>, \<open>Inr None\<close> is the end of the loop, \<open>Inl\<close> is a throw.\<close>

fun scanFeatures ::
  "('n, 'g, 'pt, 'pg) turf \<Rightarrow> 'pt \<Rightarrow> 'g feature list \<Rightarrow> error + string option" where
  "scanFeatures turf pt [] = Inr None"
| "scanFeatures turf pt (feature # rest) =
     (case geometry feature of
        None \<Rightarrow> scanFeatures turf pt rest
      | Some g \<Rightarrow>
          if type g = Polygon then
            (case polygon turf (coordinates g) of
               Inl e \<Rightarrow> Inl e
             | Inr pg \<Rightarrow>
                 (case booleanPointInPolygon turf pt pg of
                    Inl e \<Rightarrow> Inl e
                  | Inr inside \<Rightarrow>
                      if inside then map_sum id Some (nimiOrUnknown feature)
                      else scanFeatures turf pt rest))
          else if type g = MultiPolygon then
            (case multiPolygon turf (coordinates g) of
               Inl e \<Rightarrow> Inl e
             | Inr pg \<Rightarrow>
                 (case booleanPointInPolygon turf pt pg of
                    Inl e \<Rightarrow> Inl e
                  | Inr inside \<Rightarrow>
                      if inside then map_sum id Some (nimiOrUnknown feature)
                      else scanFeatures turf pt rest))
          else scanFeatures turf pt rest)"

text \<open>\<open>municipalityData\<close> is the feature list of the loaded GeoJSON, or \<open>None\<close> (null).\<close>

definition getMunicipalityForCamera ::
  "('n, 'g, 'pt, 'pg) turf \<Rightarrow> 'g feature list option \<Rightarrow> 'n \<Rightarrow> 'n \<Rightarrow> string" where
  "getMunicipalityForCamera turf municipalityData latitude longitude =
     (case municipalityData of
        None \<Rightarrow> ''Unknown''
      | Some features \<Rightarrow>
          (case point turf (longitude, latitude) of
             Inl e \<Rightarrow> ''Unknown''
           | Inr pt \<Rightarrow>
               (case scanFeatures turf pt features of
                  Inl e \<Rightarrow> ''Unknown''
                | Inr (Some r) \<Rightarrow> r
                | Inr None \<Rightarrow> ''Unknown'')))"

text \<open>
  The test the loop makes on one feature, on its own: whether the feature is a
  \<open>Polygon\<close> or a \<open>MultiPolygon\<close> whose geometry contains the point according to the
  library (\<open>Inl\<close> when the library throws on it). It is used to state what
  \<open>scanFeatures\<close> computes.
\<close>

definition featureContains :: "('n, 'g, 'pt, 'pg) turf \<Rightarrow> 'pt \<Rightarrow> 'g feature \<Rightarrow> error + bool" where
  "featureContains turf pt feature =
     (case geometry feature of
        None \<Rightarrow> Inr False
      | Some g \<Rightarrow>
          (case type g of
             Polygon \<Rightarrow>
               (case polygon turf (coordinates g) of
                  Inl e \<Rightarrow> Inl e
                | Inr pg \<Rightarrow> booleanPointInPolygon turf pt pg)
           | MultiPolygon \<Rightarrow>
               (case multiPolygon turf (coordinates g) of
                  Inl e \<Rightarrow> Inl e
                | Inr pg \<Rightarrow> booleanPointInPolygon turf pt pg)
           | OtherGeometry \<Rightarrow> Inr False))"

text \<open>The name of a feature, \<open>'Unknown'\<close> when it has no properties, no \<open>nimi\<close> or an
  empty one.\<close>

definition nameOf :: "'g feature \<Rightarrow> string" where
  "nameOf feature =
     (case properties feature of
        None \<Rightarrow> ''Unknown''
      | Some props \<Rightarrow>
          (case nimi props of
             None \<Rightarrow> ''Unknown''
           | Some n \<Rightarrow> if n = [] then ''Unknown'' else n))"

subsection \<open>Freshness\<close>

definition getImageAge :: "int \<Rightarrow> jsdate \<Rightarrow> string" where
  "getImageAge now imageTime =
     (case imageTime of
        None \<Rightarrow> ''NaNm ago''
      | Some t \<Rightarrow>
          (let diffMs = now - t;
               diffHours = diffMs div (1000 * 60 * 60);
               diffMins = js_rem diffMs (1000 * 60 * 60) div (1000 * 60)
           in if diffHours > 0 then showInt diffHours @ ''h '' @ showInt diffMins @ ''m ago''
              else showInt diffMins @ ''m ago''))"

text \<open>The test \<open>camera.measuredTime > fourHoursAgo\<close>; a comparison with NaN is false.\<close>

definition newerThan :: "int \<Rightarrow> 'a preset_scheme \<Rightarrow> bool" where
  "newerThan fourHoursAgo camera =
     (case measuredTime camera of None \<Rightarrow> False | Some t \<Rightarrow> t > fourHoursAgo)"

text \<open>The comparator \<open>(a, b) => b.measuredTime - a.measuredTime\<close>.\<close>

definition byFreshness :: "'a preset_scheme \<Rightarrow> 'a preset_scheme \<Rightarrow> int option" where
  "byFreshness a b =
     (case (measuredTime b, measuredTime a) of
        (Some tb, Some ta) \<Rightarrow> Some (tb - ta)
      | _ \<Rightarrow> None)"

text \<open>\<open>filterCameras\<close>, with the flag \<open>this.config.dropOldCameras\<close> and the clock
  reading \<open>Date.now()\<close> as arguments.\<close>

definition filterCameras :: "bool \<Rightarrow> int \<Rightarrow> 'a preset_scheme list \<Rightarrow> 'a preset_scheme list" where
  "filterCameras dropOldCameras now cameras =
     (let filtered =
            (if dropOldCameras then filter (newerThan (now - 4 * 60 * 60 * 1000)) cameras
             else cameras)
      in arraySort byFreshness filtered)"

text \<open>
  The jQuery variant's filter: \<open>diffHours = (now - date) / 3600000\<close> and the test
  \<open>diffHours < 4\<close>. The quotient of the two integers is the correctly rounded double,
  below 4 exactly when the exact quotient is (no multiple of 1/3600000 under 4 rounds
  up to 4), so the exact quotient stands for it.
\<close>

definition notOld :: "int \<Rightarrow> 'a preset_scheme \<Rightarrow> bool" where
  "notOld now element =
     (case measuredTime element of
        None \<Rightarrow> False
      | Some date \<Rightarrow>
          (let timeDiff = now - date; diffHours = real_of_int timeDiff / 3600000
           in diffHours < 4))"

definition camerasInOulu_noOld :: "int \<Rightarrow> 'a preset_scheme list \<Rightarrow> 'a preset_scheme list" where
  "camerasInOulu_noOld now camerasInOulu_Clean = filter (notOld now) camerasInOulu_Clean"

subsection \<open>Grid sizing\<close>

definition standardGridSizes :: "int list" where
  "standardGridSizes = [1, 2, 4, 6, 8, 12, 16]"

text \<open>The \<open>for ... of\<close> loop of \<open>getOptimalGridSize\<close>: the first size that fits, and 16
  (the statement after the loop) when none does.\<close>

fun firstFitting :: "int \<Rightarrow> int list \<Rightarrow> int" where
  "firstFitting cameraCount [] = 16"
| "firstFitting cameraCount (gridSize # rest) =
     (if cameraCount \<le> gridSize then gridSize else firstFitting cameraCount rest)"

definition getOptimalGridSize :: "int \<Rightarrow> int" where
  "getOptimalGridSize cameraCount = firstFitting cameraCount standardGridSizes"

subsection \<open>The controller and the page\<close>

text \<open>\<open>this.config\<close>. (\<open>imageCache\<close>, an empty \<open>Map\<close> that no method reads or
  writes, is left out.)\<close>

record config =
  cameraCount :: int
  cycling :: bool
  cyclingInterval :: int
  cyclingMode :: string
  selectedMunicipality :: string
  selectedStation :: string
  dropOldCameras :: bool
  autoHideControls :: bool
  hideTimeout :: int
  rateLimitBackoff :: bool

definition defaultConfig :: config where
  "defaultConfig =
     \<lparr>cameraCount = 4, cycling = False, cyclingInterval = 5000, cyclingMode = ''all'',
      selectedMunicipality = [], selectedStation = [], dropOldCameras = True,
      autoHideControls = True, hideTimeout = 2000, rateLimitBackoff = False\<rparr>"

text \<open>
  The element \<open>camera-k\<close> of the grid: a placeholder, a camera container that shows its
  spinner, one that shows a camera's image and caption, or one whose content
  \<open>showCameraError\<close> has replaced by the error box.
\<close>

datatype 'c tile = Placeholder | Loading | Showing 'c | Failed

text \<open>An \<open>option\<close> element of the municipality and station selectors.\<close>

record selectOption =
  optionValue :: string
  textContent :: string

text \<open>
  An \<open>option\<close> element of the cycling-interval selector. The page's markup is not part
  of the sources; the options' values are taken to be decimal integers, so an option
  is carried with the number \<open>parseInt\<close> reads from it.
\<close>

record cycleTimeOption =
  millis :: int
  disabled :: bool
  color :: string

record request =
  httpMethod :: string
  url :: string

text \<open>
  The fields of the controller object (\<open>this\<close>), then what it reaches in the browser:
  the grid's elements by number, the option lists of three selectors, the value of the
  interval selector (\<open>None\<close> when no option is selected: \<open>parseInt\<close> of the empty
  value is NaN), the warning's \<open>hidden\<close> class, the status line, the two storage
  areas, and the log of the data requests and of the image loads it has issued.
  Timer handles and the auto-hide of the controls are not modelled; timers appear as
  the events they fire.
\<close>

record ('n, 'g) controller =
  cameras :: "'n camera list"
  allCameras :: "'n camera list"
  municipalityData :: "'g feature list option"
  currentImages :: "int \<rightharpoonup> 'n camera"
  currentCycleIndex :: int
  lockedCameras :: "int set"
  lastFullUpdate :: jsdate
  isMobile :: bool
  config :: config
  cameraGrid :: "int \<rightharpoonup> 'n camera tile"
  selectedMunicipalityOptions :: "selectOption list"
  selectedStationOptions :: "selectOption list"
  cyclingIntervalOptions :: "cycleTimeOption list"
  cyclingIntervalValue :: "int option"
  rateLimitWarningHidden :: bool
  statusText :: "string \<times> string"
  sessionStorage :: "string \<rightharpoonup> string"
  localStorage :: "string \<rightharpoonup> string"
  requests :: "request list"
  imageLoads :: "(int \<times> string) list"

definition updateStatus :: "string \<Rightarrow> string \<Rightarrow> ('n, 'g) controller \<Rightarrow> ('n, 'g) controller" where
  "updateStatus message kind s = s\<lparr>statusText := (message, kind)\<rparr>"

subsection \<open>Filtering by municipality or station\<close>

text \<open>The \<open>switch\<close> on \<open>cyclingMode\<close>; a selected value is truthy when it is not the
  empty string.\<close>

definition getFilteredCameras :: "('n, 'g) controller \<Rightarrow> 'n camera list" where
  "getFilteredCameras s =
     (let filtered = cameras s in
      if cyclingMode (config s) = ''municipality'' then
        (if selectedMunicipality (config s) \<noteq> []
         then filter (\<lambda>c. municipality c = selectedMunicipality (config s)) filtered
         else filtered)
      else if cyclingMode (config s) = ''station'' then
        (if selectedStation (config s) \<noteq> []
         then filter (\<lambda>c. stationName c = selectedStation (config s)) filtered
         else filtered)
      else filtered)"

subsection \<open>Loading images into the grid\<close>

text \<open>\<open>xs[k]\<close> for a number \<open>k\<close>: \<open>None\<close> is \<open>undefined\<close>.\<close>

definition element :: "'a list \<Rightarrow> int \<Rightarrow> 'a option" where
  "element xs k = (if 0 \<le> k \<and> k < int (length xs) then Some (xs ! nat k) else None)"

text \<open>
  \<open>loadSingleCamera\<close>. Whether the image at a URL loads is the environment's:
  \<open>net k u\<close> says that the load of \<open>u\<close> for container \<open>k\<close> succeeds. In a container
  that \<open>showCameraError\<close> has rewritten, the spinner is gone, \<open>loading.classList\<close>
  throws inside the \<open>try\<close> and the error box is written again.
\<close>

definition loadSingleCamera ::
  "(int \<Rightarrow> string \<Rightarrow> bool) \<Rightarrow> int \<Rightarrow> 'n camera \<Rightarrow> ('n, 'g) controller \<Rightarrow> ('n, 'g) controller" where
  "loadSingleCamera net containerIndex camera s =
     (case cameraGrid s containerIndex of
        None \<Rightarrow> s
      | Some Placeholder \<Rightarrow> s
      | Some Failed \<Rightarrow> s
      | Some _ \<Rightarrow>
          (let s' = s\<lparr>imageLoads := imageLoads s @ [(containerIndex, imageUrl camera)]\<rparr> in
           if net containerIndex (imageUrl camera)
           then s'\<lparr>cameraGrid := (cameraGrid s)(containerIndex \<mapsto> Showing camera),
                   currentImages := (currentImages s)(containerIndex \<mapsto> camera)\<rparr>
           else s'\<lparr>cameraGrid := (cameraGrid s)(containerIndex \<mapsto> Failed)\<rparr>))"

text \<open>One round of the loop of \<open>loadCameraImages\<close>, for the index \<open>i\<close>.\<close>

definition loadSlot ::
  "(int \<Rightarrow> string \<Rightarrow> bool) \<Rightarrow> 'n camera list \<Rightarrow> int \<Rightarrow> ('n, 'g) controller \<Rightarrow> ('n, 'g) controller" where
  "loadSlot net availableCameras i s =
     (if i \<in> lockedCameras s \<and> currentImages s i \<noteq> None then s
      else
        (let cameraIndex = js_rem (currentCycleIndex s + i) (int (length availableCameras)) in
         case element availableCameras cameraIndex of
           None \<Rightarrow> s
         | Some camera \<Rightarrow> loadSingleCamera net i camera s))"

text \<open>The \<open>await\<close>s of the loop are run in order, with no other handler in between.\<close>

definition loadCameraImages ::
  "(int \<Rightarrow> string \<Rightarrow> bool) \<Rightarrow> ('n, 'g) controller \<Rightarrow> ('n, 'g) controller" where
  "loadCameraImages net s =
     (let availableCameras = getFilteredCameras s;
          actualCameraCount = min (cameraCount (config s)) (int (length availableCameras))
      in fold (loadSlot net availableCameras) [0..actualCameraCount - 1] s)"

text \<open>\<open>renderCameras\<close>: the grid is emptied and rebuilt, then the images are loaded.\<close>

definition renderCameras ::
  "(int \<Rightarrow> string \<Rightarrow> bool) \<Rightarrow> ('n, 'g) controller \<Rightarrow> ('n, 'g) controller" where
  "renderCameras net s =
     (let availableCameras = getFilteredCameras s;
          requestedCount = cameraCount (config s);
          actualCameraCount = min requestedCount (int (length availableCameras))
      in if length availableCameras = 0 then s\<lparr>cameraGrid := Map.empty\<rparr>
         else
           (let optimalGridSize = getOptimalGridSize actualCameraCount in
            loadCameraImages net
              (s\<lparr>cameraGrid :=
                   (\<lambda>i. if 0 \<le> i \<and> i < actualCameraCount then Some Loading
                        else if actualCameraCount \<le> i \<and> i < optimalGridSize then Some Placeholder
                        else None)\<rparr>)))"

subsection \<open>Ingestion\<close>

definition populateSelectors :: "('n, 'g) controller \<Rightarrow> ('n, 'g) controller" where
  "populateSelectors s =
     (let municipalities = sort (newSet [] (map municipality (cameras s)));
          stations = sort (newSet [] (map stationName (cameras s)))
      in s\<lparr>selectedMunicipalityOptions :=
              \<lparr>optionValue = [], textContent = ''All Municipalities''\<rparr>
              # map (\<lambda>m. \<lparr>optionValue = m, textContent = m\<rparr>) municipalities,
            selectedStationOptions :=
              \<lparr>optionValue = [], textContent = ''All Stations''\<rparr>
              # map (\<lambda>station.
                       \<lparr>optionValue = station,
                        textContent = map (\<lambda>ch. if ch = CHR ''_'' then CHR '' '' else ch) station\<rparr>)
                    stations\<rparr>)"

text \<open>The object built for one preset of one station.\<close>

definition processedCamera :: "int \<Rightarrow> string \<Rightarrow> 'n station \<Rightarrow> preset \<Rightarrow> 'n camera" where
  "processedCamera now municipalityName camera preset =
     \<lparr>presetId = presetId preset,
      presentationName = presentationName preset,
      imageUrl = imageUrl preset,
      measuredTime = measuredTime preset,
      stationName = name camera,
      cameraId = station.cameraId camera,
      lat = station.lat camera,
      lon = station.lon camera,
      municipality = municipalityName,
      age = getImageAge now (measuredTime preset)\<rparr>"

text \<open>\<open>processCameras\<close>; \<open>now\<close> is the clock, read once for the whole call.\<close>

definition processCameras ::
  "('n, 'g, 'pt, 'pg) turf \<Rightarrow> int \<Rightarrow> (int \<Rightarrow> string \<Rightarrow> bool) \<Rightarrow> 'n station list
     \<Rightarrow> ('n, 'g) controller \<Rightarrow> ('n, 'g) controller" where
  "processCameras turf now net rawCameras s =
     (let processedCameras =
            concat (map (\<lambda>camera.
               (let municipalityName =
                      getMunicipalityForCamera turf (municipalityData s)
                        (station.lat camera) (station.lon camera)
                in map (processedCamera now municipalityName camera) (presets camera)))
              rawCameras);
          s1 = s\<lparr>allCameras := processedCameras,
                 cameras := filterCameras (dropOldCameras (config s)) now processedCameras\<rparr>;
          s2 = renderCameras net (populateSelectors s1)
      in updateStatus (showNat (length (cameras s2)) @ '' cameras loaded'') ''success'' s2)"

subsection \<open>Cycling, refresh and locks\<close>

definition cycleCameras ::
  "(int \<Rightarrow> string \<Rightarrow> bool) \<Rightarrow> ('n, 'g) controller \<Rightarrow> ('n, 'g) controller" where
  "cycleCameras net s =
     (let availableCameras = getFilteredCameras s in
      if length availableCameras = 0 then s
      else loadCameraImages net
             (s\<lparr>currentCycleIndex :=
                  js_rem (currentCycleIndex s + cameraCount (config s))
                         (int (length availableCameras))\<rparr>))"

text \<open>One round of the loop of \<open>updateCameraImages\<close>.\<close>

definition updateSlot ::
  "(int \<Rightarrow> string \<Rightarrow> bool) \<Rightarrow> int \<Rightarrow> ('n, 'g) controller \<Rightarrow> ('n, 'g) controller" where
  "updateSlot net i s =
     (case cameraGrid s i of
        None \<Rightarrow> s
      | Some Placeholder \<Rightarrow> s
      | Some _ \<Rightarrow>
          (case currentImages s i of
             None \<Rightarrow> s
           | Some currentCamera \<Rightarrow>
               if i \<notin> lockedCameras s then
                 (case find (\<lambda>c. presetId c = presetId currentCamera) (cameras s) of
                    None \<Rightarrow> s
                  | Some updatedCamera \<Rightarrow> loadSingleCamera net i updatedCamera s)
               else s))"

definition updateCameraImages ::
  "(int \<Rightarrow> string \<Rightarrow> bool) \<Rightarrow> ('n, 'g) controller \<Rightarrow> ('n, 'g) controller" where
  "updateCameraImages net s =
     updateStatus ''Images updated'' ''success''
       (fold (updateSlot net) [0..cameraCount (config s) - 1] s)"

text \<open>
  \<open>refreshCurrentImages\<close> reloads a container only when its entry of \<open>currentImages\<close>
  has a non-empty \<open>presets\<close> array. The entries are processed cameras, which have no
  such field, so the condition is false for every container.
\<close>

definition refreshCurrentImages :: "('n, 'g) controller \<Rightarrow> ('n, 'g) controller" where
  "refreshCurrentImages s = s"

text \<open>\<open>toggleCameraLock\<close>. In a container rewritten by \<open>showCameraError\<close> the lock
  button is gone and the method throws before it changes anything.\<close>

definition toggleCameraLock :: "int \<Rightarrow> ('n, 'g) controller \<Rightarrow> ('n, 'g) controller" where
  "toggleCameraLock index s =
     (case cameraGrid s index of
        None \<Rightarrow> s
      | Some Placeholder \<Rightarrow> s
      | Some Failed \<Rightarrow> s
      | Some _ \<Rightarrow>
          if index \<in> lockedCameras s
          then s\<lparr>lockedCameras := lockedCameras s - {index}\<rparr>
          else s\<lparr>lockedCameras := insert index (lockedCameras s)\<rparr>)"

subsection \<open>Cycle time limits\<close>

definition minCycleTimes :: "(int \<times> int) list" where
  "minCycleTimes =
     [(1, 2000), (2, 3000), (4, 5000), (6, 8000), (8, 10000), (12, 15000), (16, 20000)]"

text \<open>\<open>minCycleTimes[cameraCount] || 10000\<close>.\<close>

definition minTimeFor :: "int \<Rightarrow> int" where
  "minTimeFor cnt =
     (case map_of minCycleTimes cnt of
        None \<Rightarrow> 10000
      | Some t \<Rightarrow> if t = 0 then 10000 else t)"

text \<open>\<open>intervalSelect.value = v\<close> selects the option with that value; when there is
  none, no option is selected and the value reads as the empty string.\<close>

definition assignValue :: "cycleTimeOption list \<Rightarrow> int \<Rightarrow> int option" where
  "assignValue opts v = (if v \<in> set (map millis opts) then Some v else None)"

text \<open>\<open>currentValue < minTime\<close>, false for NaN.\<close>

definition below :: "int option \<Rightarrow> int \<Rightarrow> bool" where
  "below currentValue minTime = (case currentValue of None \<Rightarrow> False | Some v \<Rightarrow> v < minTime)"

definition updateCycleTimeOptions :: "('n, 'g) controller \<Rightarrow> ('n, 'g) controller" where
  "updateCycleTimeOptions s =
     (let minTime = minTimeFor (cameraCount (config s));
          currentValue = cyclingIntervalValue s;
          s1 = s\<lparr>cyclingIntervalOptions :=
                   map (\<lambda>opt. if millis opt < minTime
                              then opt\<lparr>disabled := True, color := ''#9ca3af''\<rparr>
                              else opt\<lparr>disabled := False, color := []\<rparr>)
                       (cyclingIntervalOptions s)\<rparr>
      in if below currentValue minTime
         then s1\<lparr>rateLimitWarningHidden := False,
                 cyclingIntervalValue := assignValue (cyclingIntervalOptions s1) minTime,
                 config := (config s)\<lparr>cyclingInterval := minTime\<rparr>\<rparr>
         else s1\<lparr>rateLimitWarningHidden := True\<rparr>)"

subsection \<open>Loading the data\<close>

text \<open>What a \<open>fetch\<close> gives: the promise rejects with an error message (also when the
  body is not JSON), the response is not \<open>ok\<close> and has a status and a status text, or
  the body parses to a value of the expected shape.\<close>

datatype 'a fetched = Rejected string | NotOk int string | Json 'a

definition municipalityUrl :: string where
  "municipalityUrl = ''finnish-municipalities-wgs84.geojson''"

definition cameraApiUrl :: string where
  "cameraApiUrl = ''https://api.oulunliikenne.fi/proxy/graphql''"

text \<open>The two loaders return the state with the error they throw, if any: what they
  changed before the throw stays changed.\<close>

definition loadMunicipalityData ::
  "'g feature list fetched \<Rightarrow> ('n, 'g) controller \<Rightarrow> ('n, 'g) controller \<times> error option" where
  "loadMunicipalityData response s =
     (let s1 = updateStatus ''Loading municipality data...'' ''loading'' s;
          s2 = s1\<lparr>requests := requests s1 @ [\<lparr>httpMethod = ''GET'', url = municipalityUrl\<rparr>]\<rparr>
      in case response of
           Rejected message \<Rightarrow> (s2, Some FetchError)
         | NotOk status reasonPhrase \<Rightarrow> (s2, Some HttpError)
         | Json features \<Rightarrow> (s2\<lparr>municipalityData := Some features\<rparr>, None))"

definition loadCameras ::
  "('n, 'g, 'pt, 'pg) turf \<Rightarrow> int \<Rightarrow> (int \<Rightarrow> string \<Rightarrow> bool) \<Rightarrow> 'n station list fetched
     \<Rightarrow> ('n, 'g) controller \<Rightarrow> ('n, 'g) controller \<times> error option" where
  "loadCameras turf now net response s =
     (let s1 = updateStatus ''Loading cameras...'' ''loading'' s;
          s2 = s1\<lparr>requests := requests s1 @ [\<lparr>httpMethod = ''POST'', url = cameraApiUrl\<rparr>]\<rparr>
      in case response of
           Rejected message \<Rightarrow>
             (updateStatus (''Failed to load cameras: '' @ message) ''error'' s2, Some FetchError)
         | NotOk status reasonPhrase \<Rightarrow>
             (updateStatus
                (''Failed to load cameras: HTTP '' @ showInt status @ '': '' @ reasonPhrase)
                ''error'' s2,
              Some HttpError)
         | Json rawCameras \<Rightarrow>
             ((processCameras turf now net rawCameras s2)\<lparr>lastFullUpdate := Some now\<rparr>, None))"

text \<open>\<open>setupMobileRestrictions\<close>, without the hiding of the selector's options.\<close>

definition setupMobileRestrictions ::
  "(int \<Rightarrow> string \<Rightarrow> bool) \<Rightarrow> ('n, 'g) controller \<Rightarrow> ('n, 'g) controller" where
  "setupMobileRestrictions net s =
     (if \<not> isMobile s then s
      else if cameraCount (config s) > 8
           then renderCameras net (s\<lparr>config := (config s)\<lparr>cameraCount := 8\<rparr>\<rparr>)
           else s)"

text \<open>
  \<open>init\<close>. \<open>turfLoaded\<close> says that the global \<open>turf\<close> is defined; the two responses are
  what the two \<open>fetch\<close> calls would give. The listeners and timers that \<open>init\<close>
  registers are the events of \<open>handle\<close> below.
\<close>

definition init ::
  "bool \<Rightarrow> ('n, 'g, 'pt, 'pg) turf \<Rightarrow> int \<Rightarrow> (int \<Rightarrow> string \<Rightarrow> bool)
     \<Rightarrow> 'g feature list fetched \<Rightarrow> 'n station list fetched
     \<Rightarrow> ('n, 'g) controller \<Rightarrow> ('n, 'g) controller" where
  "init turfLoaded turf now net municipalityResponse cameraResponse s =
     (if \<not> turfLoaded then updateStatus ''Turf.js library not loaded'' ''error'' s
      else
        (case loadMunicipalityData municipalityResponse s of
           (s1, Some e) \<Rightarrow> updateStatus ''Failed to initialize'' ''error'' s1
         | (s1, None) \<Rightarrow>
             (case loadCameras turf now net cameraResponse s1 of
                (s2, Some e) \<Rightarrow> updateStatus ''Failed to initialize'' ''error'' s2
              | (s2, None) \<Rightarrow>
                  updateStatus ''Ready'' ''success'' (setupMobileRestrictions net s2))))"

subsection \<open>Events\<close>

text \<open>
  The listeners of \<open>setupEventListeners\<close> and the timers of \<open>startCycling\<close>,
  \<open>startPeriodicUpdates\<close> and \<open>startImageRefresh\<close>, each with what the browser hands
  it: the selector's new value, the checkbox's state, the new result of
  \<open>detectMobile\<close>, the response of the reload. The listeners of the modal dialog and
  of the auto-hide change only what the page shows and are left out.
\<close>

datatype 'n event =
    CameraCountChange int
  | CyclingToggle
  | CyclingIntervalChange int
  | CyclingModeChange string
  | SelectedMunicipalityChange string
  | SelectedStationChange string
  | DropOldCamerasChange bool
  | AutoHideControlsChange bool
  | LockButtonClick int
  | WindowResize bool
  | CycleTimer
  | ImageUpdateTimer
  | ImageRefreshTimer
  | ReloadTimer "'n station list fetched"

fun handle ::
  "('n, 'g, 'pt, 'pg) turf \<Rightarrow> int \<Rightarrow> (int \<Rightarrow> string \<Rightarrow> bool) \<Rightarrow> 'n event
     \<Rightarrow> ('n, 'g) controller \<Rightarrow> ('n, 'g) controller" where
  "handle turf now net (CameraCountChange n) s =
     renderCameras net (updateCycleTimeOptions (s\<lparr>config := (config s)\<lparr>cameraCount := n\<rparr>\<rparr>))"
| "handle turf now net CyclingToggle s =
     s\<lparr>config := (config s)\<lparr>cycling := \<not> cycling (config s)\<rparr>\<rparr>"
| "handle turf now net (CyclingIntervalChange v) s =
     s\<lparr>cyclingIntervalValue := Some v, config := (config s)\<lparr>cyclingInterval := v\<rparr>\<rparr>"
| "handle turf now net (CyclingModeChange m) s =
     renderCameras net (s\<lparr>config := (config s)\<lparr>cyclingMode := m\<rparr>\<rparr>)"
| "handle turf now net (SelectedMunicipalityChange m) s =
     renderCameras net (s\<lparr>config := (config s)\<lparr>selectedMunicipality := m\<rparr>\<rparr>)"
| "handle turf now net (SelectedStationChange m) s =
     renderCameras net (s\<lparr>config := (config s)\<lparr>selectedStation := m\<rparr>\<rparr>)"
| "handle turf now net (DropOldCamerasChange checked) s =
     renderCameras net
       (s\<lparr>config := (config s)\<lparr>dropOldCameras := checked\<rparr>,
          cameras := filterCameras checked now (allCameras s)\<rparr>)"
| "handle turf now net (AutoHideControlsChange checked) s =
     s\<lparr>config := (config s)\<lparr>autoHideControls := checked\<rparr>\<rparr>"
| "handle turf now net (LockButtonClick index) s = toggleCameraLock index s"
| "handle turf now net (WindowResize mobile) s =
     (if isMobile s \<noteq> mobile
      then renderCameras net (setupMobileRestrictions net (s\<lparr>isMobile := mobile\<rparr>))
      else s)"
| "handle turf now net CycleTimer s = cycleCameras net s"
| "handle turf now net ImageUpdateTimer s = updateCameraImages net s"
| "handle turf now net ImageRefreshTimer s = refreshCurrentImages s"
| "handle turf now net (ReloadTimer response) s = fst (loadCameras turf now net response s)"

text \<open>An event whose camera count, if it carries one, is not negative.\<close>

fun countNotNegative :: "'n event \<Rightarrow> bool" where
  "countNotNegative (CameraCountChange n) = (0 \<le> n)"
| "countNotNegative ev = True"

subsection \<open>The jQuery variant\<close>

text \<open>The substring test of JavaScript strings.\<close>

fun str_includes :: "string \<Rightarrow> string \<Rightarrow> bool" where
  "str_includes [] sub = (sub = [])"
| "str_includes (c # cs) sub = (take (length sub) (c # cs) = sub \<or> str_includes cs sub)"

text \<open>
  The second \<open>forEach\<close> removes the stations whose name contains \<open>Yli-Ii\<close> from the
  array it walks: after a \<open>splice\<close> the next station moves into the index just
  visited, and the walk passes over it without a test.
\<close>

fun spliceYliIi :: "'n station list \<Rightarrow> 'n station list" where
  "spliceYliIi [] = []"
| "spliceYliIi [x] = (if str_includes (name x) ''Yli-Ii'' then [] else [x])"
| "spliceYliIi (x # y # rest) =
     (if str_includes (name x) ''Yli-Ii'' then y # spliceYliIi rest
      else x # spliceYliIi (y # rest))"

text \<open>\<open>sessionStorage.getItem(key) <= end\<close>: \<open>null\<close> counts as 0, and a stored string
  is read as a number. Only strings of decimal digits are read here (what \<open>setItem\<close>
  stores for a length); any other string counts as NaN, for which the test is false.\<close>

definition digitsValue :: "string \<Rightarrow> int option" where
  "digitsValue str =
     (if \<forall>c \<in> set str. CHR ''0'' \<le> c \<and> c \<le> CHR ''9''
      then Some (foldl (\<lambda>acc c. 10 * acc + (int (of_char c) - 48)) 0 str)
      else None)"

definition storedAtMost :: "string option \<Rightarrow> int \<Rightarrow> bool" where
  "storedAtMost item end =
     (case item of
        None \<Rightarrow> 0 \<le> end
      | Some str \<Rightarrow> (case digitsValue str of None \<Rightarrow> False | Some n \<Rightarrow> n \<le> end))"

text \<open>
  One round of the \<open>while (true)\<close> loop of \<open>onpageload\<close> on its variables \<open>(start, end)\<close>:
  the window it passes to \<open>conditionalRender\<close>, and the variables after the round.
\<close>

definition onpageloadRound :: "(string \<rightharpoonup> string) \<Rightarrow> int \<times> int \<Rightarrow> (int \<times> int) \<times> (int \<times> int)" where
  "onpageloadRound storage w =
     (let (start, end) = w;
          (start, end) = (if storedAtMost (storage ''camerasInOulu'') end then (0, 4) else (start, end))
      in ((start, end), (end, end + 4)))"

text \<open>The page of the jQuery variant: the session storage and the four elements
  \<open>#1\<close> to \<open>#4\<close>, each with the preset whose image and time it shows.\<close>

record jqPage =
  storage :: "string \<rightharpoonup> string"
  shown :: "int \<rightharpoonup> preset"

text \<open>The inner loop: the elements \<open>#t\<close> for \<open>t\<close> from 1 to 4 are filled from
  \<open>camerasInOulu_noOld[i]\<close> on; reading \<open>imageUrl\<close> of \<open>undefined\<close> throws, and what
  was filled before stays.\<close>

fun showFour ::
  "preset list \<Rightarrow> int \<Rightarrow> int list \<Rightarrow> (int \<rightharpoonup> preset) \<Rightarrow> (int \<rightharpoonup> preset) \<times> error option" where
  "showFour noOld i [] tiles = (tiles, None)"
| "showFour noOld i (t # ts) tiles =
     (case element noOld i of
        None \<Rightarrow> (tiles, Some TypeError)
      | Some cam \<Rightarrow> showFour noOld (i + 1) ts (tiles(t \<mapsto> cam)))"

text \<open>The outer loop \<open>for (let i = startNum; i < endNum; i = i + 4)\<close>, whose body has
  already added 4 to \<open>i\<close>.\<close>

function showWindow ::
  "preset list \<Rightarrow> int \<Rightarrow> int \<Rightarrow> (int \<rightharpoonup> preset) \<Rightarrow> (int \<rightharpoonup> preset) \<times> error option" where
  "showWindow noOld i endNum tiles =
     (if i < endNum then
        (case showFour noOld i [1, 2, 3, 4] tiles of
           (tiles', Some e) \<Rightarrow> (tiles', Some e)
         | (tiles', None) \<Rightarrow> showWindow noOld (i + 4 + 4) endNum tiles')
      else (tiles, None))"
  by pat_completeness auto
termination
  by (relation "measure (\<lambda>(noOld, i, endNum, tiles). nat (endNum - i))") auto

declare showWindow.simps [simp del]

text \<open>
  The \<open>success\<close> callback of \<open>conditionalRender\<close> on the response's stations. The count
  is stored before the elements are filled, so it stays stored when filling throws.
  The text that replaces each preset's \<open>measuredTime\<close> for display depends on the time
  zone and is not modelled: an element is carried with the preset it shows.
\<close>

definition conditionalRender_success ::
  "int \<Rightarrow> int \<Rightarrow> int \<Rightarrow> 'n station list \<Rightarrow> jqPage \<Rightarrow> jqPage \<times> error option" where
  "conditionalRender_success now startNum endNum cameraArray page =
     (let camerasInOulu =
            filter (\<lambda>e. str_includes (name e) ''_Oulu_'' \<or> str_includes (name e) ''-'') cameraArray;
          camerasInOulu_Clean = concat (map presets (spliceYliIi camerasInOulu));
          noOld = camerasInOulu_noOld now camerasInOulu_Clean;
          page1 = page\<lparr>storage := (storage page)(''camerasInOulu'' \<mapsto> showNat (length noOld))\<rparr>
      in case showWindow noOld startNum endNum (shown page1) of
           (tiles, thrown) \<Rightarrow> (page1\<lparr>shown := tiles\<rparr>, thrown))"

subsection \<open>The constructor, and example data\<close>

text \<open>The controller as the constructor leaves it before \<open>init\<close> runs, on a page whose
  interval selector has the options \<open>opts\<close> and the value \<open>v\<close>.\<close>

definition constructed :: "bool \<Rightarrow> cycleTimeOption list \<Rightarrow> int option \<Rightarrow> ('n, 'g) controller" where
  "constructed mobile opts v =
     \<lparr>cameras = [], allCameras = [], municipalityData = None, currentImages = Map.empty,
      currentCycleIndex = 0, lockedCameras = {}, lastFullUpdate = None, isMobile = mobile,
      config = defaultConfig, cameraGrid = Map.empty, selectedMunicipalityOptions = [],
      selectedStationOptions = [], cyclingIntervalOptions = opts, cyclingIntervalValue = v,
      rateLimitWarningHidden = True, statusText = ([], []), sessionStorage = Map.empty,
      localStorage = Map.empty, requests = [], imageLoads = []\<rparr>"

text \<open>
  Example data for the concrete instances below. Coordinates are integers on a line: a
  geometry is an interval of longitudes, the stand-in for the library refuses a
  latitude beyond 90 degrees and an interval whose ends are in the wrong order, and a
  point is inside an interval when its longitude is.
\<close>

definition exampleTurf :: "(int, int \<times> int, int, int \<times> int) turf" where
  "exampleTurf =
     \<lparr>point = (\<lambda>(longitude, latitude).
                 if - 90 \<le> latitude \<and> latitude \<le> 90 then Inr longitude else Inl TurfError),
      polygon = (\<lambda>(a, b). if a \<le> b then Inr (a, b) else Inl TurfError),
      multiPolygon = (\<lambda>(a, b). if a \<le> b then Inr (a, b) else Inl TurfError),
      booleanPointInPolygon = (\<lambda>pt (a, b). Inr (a \<le> pt \<and> pt \<le> b))\<rparr>"

definition exampleFeature :: "geometryType \<Rightarrow> int \<times> int \<Rightarrow> string option \<Rightarrow> (int \<times> int) feature" where
  "exampleFeature t g n =
     \<lparr>geometry = Some \<lparr>type = t, coordinates = g\<rparr>, properties = Some \<lparr>nimi = n\<rparr>\<rparr>"

definition examplePreset :: "string \<Rightarrow> int \<Rightarrow> preset" where
  "examplePreset pid t =
     \<lparr>presetId = pid, presentationName = ''View'', imageUrl = ''img/'' @ pid,
      measuredTime = Some t\<rparr>"

definition exampleStation :: "string \<Rightarrow> preset list \<Rightarrow> int station" where
  "exampleStation nm ps =
     \<lparr>station.cameraId = ''C1'', name = nm, station.lat = 65, station.lon = 25, presets = ps\<rparr>"

definition exampleCamera :: "string \<Rightarrow> int \<Rightarrow> int camera" where
  "exampleCamera pid t =
     processedCamera 1000 ''Oulu'' (exampleStation ''C_Oulu_A'' []) (examplePreset pid t)"

text \<open>A controller with three cameras, two containers that show the first two, and a
  lock on container 0.\<close>

definition exampleController :: "(int, int \<times> int) controller" where
  "exampleController =
     (constructed False [] (Some 5000))
       \<lparr>cameras := [exampleCamera ''a'' 900, exampleCamera ''b'' 800, exampleCamera ''c'' 700],
        config := defaultConfig\<lparr>cameraCount := 2\<rparr>,
        currentImages := [0 \<mapsto> exampleCamera ''a'' 900, 1 \<mapsto> exampleCamera ''b'' 800],
        cameraGrid := [0 \<mapsto> Showing (exampleCamera ''a'' 900), 1 \<mapsto> Showing (exampleCamera ''b'' 800)],
        lockedCameras := {0}\<rparr>"

text \<open>Every image loads.\<close>

definition imagesLoad :: "int \<Rightarrow> string \<Rightarrow> bool" where
  "imagesLoad k u = True"

text \<open>The jQuery variant's page before the first response.\<close>

definition emptyPage :: jqPage where
  "emptyPage = \<lparr>storage = Map.empty, shown = Map.empty\<rparr>"

text \<open>An interval selector with six options, none disabled.\<close>

definition exampleIntervalOptions :: "cycleTimeOption list" where
  "exampleIntervalOptions =
     map (\<lambda>v. \<lparr>millis = v, disabled = False, color = []\<rparr>)
       [2000, 5000, 8000, 10000, 20000, 30000]"

text \<open>
  A run from the constructor's state: \<open>init\<close> loads one station with two fresh presets,
  the lock button of container 0 is clicked, and 30 minutes later the reload timer
  fires with the same response.
\<close>

definition exampleResponse :: "int station list" where
  "exampleResponse =
     [exampleStation ''C_Oulu_A'' [examplePreset ''p1'' 19000000, examplePreset ''p2'' 19500000]]"

definition loadedExample :: "(int, int \<times> int) controller" where
  "loadedExample =
     init True exampleTurf 20000000 imagesLoad
       (Json [exampleFeature Polygon (0, 30) (Some ''Oulu'')]) (Json exampleResponse)
       (constructed False exampleIntervalOptions (Some 5000))"

definition lockedExample :: "(int, int \<times> int) controller" where
  "lockedExample = handle exampleTurf 20000000 imagesLoad (LockButtonClick 0) loadedExample"

definition reloadedExample :: "(int, int \<times> int) controller" where
  "reloadedExample =
     handle exampleTurf 21800000 imagesLoad (ReloadTimer (Json exampleResponse)) lockedExample"

section \<open>Properties\<close>

subsection \<open>Grid sizing\<close>

lemma getOptimalGridSize_cases:
  "getOptimalGridSize n =
     (if n \<le> 1 then 1 else if n \<le> 2 then 2 else if n \<le> 4 then 4 else if n \<le> 6 then 6
      else if n \<le> 8 then 8 else if n \<le> 12 then 12 else 16)"
  by (simp add: getOptimalGridSize_def standardGridSizes_def)

lemma getOptimalGridSize_mono: "m \<le> n \<Longrightarrow> getOptimalGridSize m \<le> getOptimalGridSize n"
  unfolding getOptimalGridSize_cases by (simp split: if_splits)

lemma getOptimalGridSize_least:
  "g \<in> set standardGridSizes \<Longrightarrow> n \<le> g \<Longrightarrow> getOptimalGridSize n \<le> g"
  unfolding getOptimalGridSize_cases by (auto simp: standardGridSizes_def)

lemma getOptimalGridSize_member: "getOptimalGridSize n \<in> set standardGridSizes"
  unfolding getOptimalGridSize_cases by (simp add: standardGridSizes_def)

text \<open>
  Claim C10. For every camera count \<open>n \<ge> 0\<close>, \<open>getOptimalGridSize n\<close> is an element of
  \<open>[1, 2, 4, 6, 8, 12, 16]\<close>; when \<open>n \<le> 16\<close> it is at least \<open>n\<close> and no larger than any
  standard size that is at least \<open>n\<close> (so it is the smallest such size); when \<open>n > 16\<close>
  it is 16; it is always at least \<open>min n 16\<close>; and the function is monotone.
\<close>

theorem getOptimalGridSize_tightest:
  assumes "0 \<le> n"
  shows "getOptimalGridSize n \<in> set standardGridSizes
    \<and> (n \<le> 16 \<longrightarrow> n \<le> getOptimalGridSize n
          \<and> (\<forall>g \<in> set standardGridSizes. n \<le> g \<longrightarrow> getOptimalGridSize n \<le> g))
    \<and> (16 < n \<longrightarrow> getOptimalGridSize n = 16)
    \<and> min n 16 \<le> getOptimalGridSize n
    \<and> (\<forall>m. 0 \<le> m \<and> m \<le> n \<longrightarrow> getOptimalGridSize m \<le> getOptimalGridSize n)"
proof -
  have "n \<le> 16 \<longrightarrow> n \<le> getOptimalGridSize n"
    unfolding getOptimalGridSize_cases by simp
  moreover have "\<forall>g \<in> set standardGridSizes. n \<le> g \<longrightarrow> getOptimalGridSize n \<le> g"
    using getOptimalGridSize_least by blast
  moreover have "16 < n \<longrightarrow> getOptimalGridSize n = 16"
    unfolding getOptimalGridSize_cases by simp
  moreover have "min n 16 \<le> getOptimalGridSize n"
    unfolding getOptimalGridSize_cases by simp
  moreover have "\<forall>m. 0 \<le> m \<and> m \<le> n \<longrightarrow> getOptimalGridSize m \<le> getOptimalGridSize n"
    using getOptimalGridSize_mono by blast
  ultimately show ?thesis
    using getOptimalGridSize_member by blast
qed

theorem getOptimalGridSize_tightest_witness:
  "(0::int) \<le> 5 \<and> getOptimalGridSize 5 = 6 \<and> getOptimalGridSize 3 \<le> getOptimalGridSize 5
     \<and> getOptimalGridSize 5 \<le> 8"
proof -
  have h: "(0::int) \<le> 5" by simp
  have "getOptimalGridSize 5 = 6" by (simp add: getOptimalGridSize_cases)
  moreover have "getOptimalGridSize 3 \<le> getOptimalGridSize 5"
    using getOptimalGridSize_tightest [OF h] by simp
  moreover have "getOptimalGridSize 5 \<le> 8"
    using getOptimalGridSize_tightest [OF h] by (simp add: standardGridSizes_def)
  ultimately show ?thesis by simp
qed

subsection \<open>Freshness filter\<close>

lemma insertSorted_byFreshness:
  assumes "measuredTime x \<noteq> None" "\<forall>y \<in> set ys. measuredTime y \<noteq> None"
  shows "insertSorted byFreshness x ys = insort_key (\<lambda>c. - the (measuredTime c)) x ys"
  using assms by (induction ys) (auto simp: byFreshness_def)

lemma arraySort_byFreshness:
  "\<forall>y \<in> set xs. measuredTime y \<noteq> None \<Longrightarrow>
     arraySort byFreshness xs = sort_key (\<lambda>c. - the (measuredTime c)) xs"
proof (induction xs)
  case Nil
  then show ?case by (simp add: arraySort_def)
next
  case (Cons x xs)
  then have "arraySort byFreshness xs = sort_key (\<lambda>c. - the (measuredTime c)) xs" by simp
  moreover have "\<forall>y \<in> set (sort_key (\<lambda>c. - the (measuredTime c)) xs). measuredTime y \<noteq> None"
    using Cons.prems by simp
  ultimately show ?case
    using Cons.prems by (simp add: arraySort_def sort_key_def insertSorted_byFreshness)
qed

lemma newerThan_iff:
  "newerThan (now - 14400000) c \<longleftrightarrow> (\<exists>t. measuredTime c = Some t \<and> now - t < 14400000)"
  by (auto simp: newerThan_def split: option.splits)

lemma notOld_iff:
  "notOld now c \<longleftrightarrow> (\<exists>t. measuredTime c = Some t \<and> now - t < 14400000)"
  by (auto simp: notOld_def Let_def split: option.splits)

lemma sorted_newest_first:
  assumes "\<forall>y \<in> set xs. measuredTime y \<noteq> None"
  shows "sorted_wrt (\<lambda>a b. \<exists>ta tb. measuredTime a = Some ta \<and> measuredTime b = Some tb \<and> tb \<le> ta)
           (sort_key (\<lambda>c. - the (measuredTime c)) xs)"
proof -
  let ?ys = "sort_key (\<lambda>c. - the (measuredTime c)) xs"
  have s: "sorted (map (\<lambda>c. - the (measuredTime c)) ?ys)" by (rule sorted_sort_key)
  have v: "\<forall>y \<in> set ?ys. measuredTime y \<noteq> None" using assms by simp
  have "sorted_wrt (\<lambda>a b. - the (measuredTime a) \<le> - the (measuredTime b)) ?ys"
    using s by (simp add: sorted_map)
  moreover have "\<And>a b. a \<in> set ?ys \<Longrightarrow> b \<in> set ?ys \<Longrightarrow>
      - the (measuredTime a) \<le> - the (measuredTime b) \<Longrightarrow>
      \<exists>ta tb. measuredTime a = Some ta \<and> measuredTime b = Some tb \<and> tb \<le> ta"
  proof -
    fix a b
    assume ab: "a \<in> set ?ys" "b \<in> set ?ys"
      and le: "- the (measuredTime a) \<le> - the (measuredTime b)"
    have "measuredTime a \<noteq> None" "measuredTime b \<noteq> None"
      using v ab by blast+
    then obtain ta tb where "measuredTime a = Some ta" "measuredTime b = Some tb"
      by blast
    then show "\<exists>ta tb. measuredTime a = Some ta \<and> measuredTime b = Some tb \<and> tb \<le> ta"
      using le by simp
  qed
  ultimately show ?thesis
    by (rule sorted_wrt_mono_rel [rotated])
qed

text \<open>
  Claim C1. With \<open>dropOldCameras\<close> enabled, \<open>filterCameras\<close> returns exactly the
  cameras of its input (with their multiplicities) whose \<open>measuredTime\<close> is a valid
  date less than 4 hours (14400000 ms) before the clock reading \<open>now\<close>, and the
  result is ordered by \<open>measuredTime\<close>, newest first. The jQuery variant keeps, in
  their order, the presets that pass the same strict test. (\<open>now - t < 14400000\<close> is
  \<open>t > now - 14400000\<close>: the cutoff is one-sided.)
\<close>

theorem filterCameras_fresh_sorted:
  "mset (filterCameras True now cams) =
     mset (filter (\<lambda>c. \<exists>t. measuredTime c = Some t \<and> now - t < 14400000) cams)
   \<and> sorted_wrt (\<lambda>a b. \<exists>ta tb. measuredTime a = Some ta \<and> measuredTime b = Some tb \<and> tb \<le> ta)
        (filterCameras True now cams)
   \<and> camerasInOulu_noOld now clean =
        filter (\<lambda>c. \<exists>t. measuredTime c = Some t \<and> now - t < 14400000) clean"
proof -
  let ?fresh = "\<lambda>c. \<exists>t. measuredTime c = Some t \<and> now - t < 14400000"
  have f: "filter (newerThan (now - 4 * 60 * 60 * 1000)) cams = filter ?fresh cams"
    by (rule filter_cong) (simp_all add: newerThan_iff)
  have v: "\<forall>y \<in> set (filter ?fresh cams). measuredTime y \<noteq> None" by auto
  have e: "filterCameras True now cams =
             sort_key (\<lambda>c. - the (measuredTime c)) (filter ?fresh cams)"
    unfolding filterCameras_def Let_def using f arraySort_byFreshness [OF v] by simp
  have "camerasInOulu_noOld now clean = filter ?fresh clean"
    unfolding camerasInOulu_noOld_def by (rule filter_cong) (simp_all add: notOld_iff)
  then show ?thesis
    unfolding e using sorted_newest_first [OF v] by simp
qed

subsection \<open>Filtering by municipality or station\<close>

text \<open>
  Claim C3. \<open>getFilteredCameras\<close> returns the cameras whose municipality is the selected
  one when the mode is \<open>municipality\<close> and a municipality is selected, the cameras
  whose station name is the selected one when the mode is \<open>station\<close> and a station is
  selected, and the list \<open>this.cameras\<close> itself (same elements, same order) in every
  other case, also when the selected value is the empty string.
\<close>

theorem getFilteredCameras_mode_gated:
  "getFilteredCameras s =
     (if cyclingMode (config s) = ''municipality'' \<and> selectedMunicipality (config s) \<noteq> []
      then filter (\<lambda>c. municipality c = selectedMunicipality (config s)) (cameras s)
      else if cyclingMode (config s) = ''station'' \<and> selectedStation (config s) \<noteq> []
      then filter (\<lambda>c. stationName c = selectedStation (config s)) (cameras s)
      else cameras s)"
  by (simp add: getFilteredCameras_def Let_def)


subsection \<open>What the image loaders leave alone\<close>

lemma loadSingleCamera_shape:
  "\<exists>a b c. loadSingleCamera net i cam s = s\<lparr>currentImages := a, cameraGrid := b, imageLoads := c\<rparr>"
proof (cases "cameraGrid s i")
  case None
  have "s = s\<lparr>currentImages := currentImages s, cameraGrid := cameraGrid s, imageLoads := imageLoads s\<rparr>"
    by simp
  then show ?thesis using None unfolding loadSingleCamera_def by (simp only: option.case) blast
next
  case (Some t)
  have id: "s = s\<lparr>currentImages := currentImages s, cameraGrid := cameraGrid s, imageLoads := imageLoads s\<rparr>"
    by simp
  show ?thesis
  proof (cases "t = Placeholder \<or> t = Failed")
    case True
    then have "loadSingleCamera net i cam s = s"
      using Some by (auto simp: loadSingleCamera_def)
    then show ?thesis using id by metis
  next
    case False
    then have "loadSingleCamera net i cam s =
        (if net i (imageUrl cam)
         then s\<lparr>currentImages := (currentImages s)(i \<mapsto> cam),
                cameraGrid := (cameraGrid s)(i \<mapsto> Showing cam),
                imageLoads := imageLoads s @ [(i, imageUrl cam)]\<rparr>
         else s\<lparr>currentImages := currentImages s,
                cameraGrid := (cameraGrid s)(i \<mapsto> Failed),
                imageLoads := imageLoads s @ [(i, imageUrl cam)]\<rparr>)"
      using Some by (cases t) (simp_all add: loadSingleCamera_def Let_def)
    then show ?thesis by (metis (full_types))
  qed
qed

lemma loadSlot_shape:
  "\<exists>a b c. loadSlot net av i s = s\<lparr>currentImages := a, cameraGrid := b, imageLoads := c\<rparr>"
proof -
  have id: "s = s\<lparr>currentImages := currentImages s, cameraGrid := cameraGrid s, imageLoads := imageLoads s\<rparr>"
    by simp
  have "loadSlot net av i s = s \<or> (\<exists>cam. loadSlot net av i s = loadSingleCamera net i cam s)"
    by (auto simp: loadSlot_def Let_def split: option.split)
  then show ?thesis using id loadSingleCamera_shape by metis
qed

lemma updateSlot_shape:
  "\<exists>a b c. updateSlot net i s = s\<lparr>currentImages := a, cameraGrid := b, imageLoads := c\<rparr>"
proof -
  have id: "s = s\<lparr>currentImages := currentImages s, cameraGrid := cameraGrid s, imageLoads := imageLoads s\<rparr>"
    by simp
  have "updateSlot net i s = s \<or> (\<exists>cam. updateSlot net i s = loadSingleCamera net i cam s)"
    by (auto simp: updateSlot_def split: option.split tile.split)
  then show ?thesis using id loadSingleCamera_shape by metis
qed

lemma fold_shape:
  assumes "\<And>i s. \<exists>a b c. f i s = s\<lparr>currentImages := a, cameraGrid := b, imageLoads := c\<rparr>"
  shows "\<exists>a b c. fold f ks s = s\<lparr>currentImages := a, cameraGrid := b, imageLoads := c\<rparr>"
proof (induction ks arbitrary: s)
  case Nil
  have "s = s\<lparr>currentImages := currentImages s, cameraGrid := cameraGrid s, imageLoads := imageLoads s\<rparr>"
    by simp
  then show ?case by (simp only: fold.simps id_apply) blast
next
  case (Cons k ks)
  obtain a b c where 1: "f k s = s\<lparr>currentImages := a, cameraGrid := b, imageLoads := c\<rparr>"
    using assms by blast
  obtain a' b' c' where 2: "fold f ks (f k s) = (f k s)\<lparr>currentImages := a', cameraGrid := b', imageLoads := c'\<rparr>"
    using Cons.IH by blast
  have "fold f (k # ks) s = s\<lparr>currentImages := a', cameraGrid := b', imageLoads := c'\<rparr>"
    by (simp add: 2) (simp add: 1)
  then show ?case by blast
qed

lemma loadCameraImages_shape:
  "\<exists>a b c. loadCameraImages net s = s\<lparr>currentImages := a, cameraGrid := b, imageLoads := c\<rparr>"
  unfolding loadCameraImages_def Let_def by (rule fold_shape) (rule loadSlot_shape)

lemma renderCameras_shape:
  "\<exists>a b c. renderCameras net s = s\<lparr>currentImages := a, cameraGrid := b, imageLoads := c\<rparr>"
proof (cases "getFilteredCameras s = []")
  case True
  then have "renderCameras net s =
      s\<lparr>currentImages := currentImages s, cameraGrid := Map.empty, imageLoads := imageLoads s\<rparr>"
    by (simp add: renderCameras_def)
  then show ?thesis by blast
next
  case False
  then obtain g where "renderCameras net s = loadCameraImages net (s\<lparr>cameraGrid := g\<rparr>)"
    by (simp add: renderCameras_def Let_def)
  moreover obtain a b c where
    "loadCameraImages net (s\<lparr>cameraGrid := g\<rparr>) =
       (s\<lparr>cameraGrid := g\<rparr>)\<lparr>currentImages := a, cameraGrid := b, imageLoads := c\<rparr>"
    using loadCameraImages_shape by blast
  ultimately have "renderCameras net s = s\<lparr>currentImages := a, cameraGrid := b, imageLoads := c\<rparr>"
    by simp
  then show ?thesis by blast
qed

lemma shape_frame:
  assumes "\<exists>a b c. s' = s\<lparr>currentImages := a, cameraGrid := b, imageLoads := c\<rparr>"
  shows "cameras s' = cameras s" and "allCameras s' = allCameras s" and "config s' = config s"
    and "currentCycleIndex s' = currentCycleIndex s" and "lockedCameras s' = lockedCameras s"
    and "sessionStorage s' = sessionStorage s" and "localStorage s' = localStorage s"
    and "requests s' = requests s"
    and "selectedMunicipalityOptions s' = selectedMunicipalityOptions s"
    and "selectedStationOptions s' = selectedStationOptions s"
    and "cyclingIntervalValue s' = cyclingIntervalValue s"
    and "cyclingIntervalOptions s' = cyclingIntervalOptions s"
  using assms by auto

lemmas loadCameraImages_frame = shape_frame [OF loadCameraImages_shape]
lemmas renderCameras_frame = shape_frame [OF renderCameras_shape]

lemma updateCameraImages_frame:
  "sessionStorage (updateCameraImages net s) = sessionStorage s"
  "localStorage (updateCameraImages net s) = localStorage s"
  "requests (updateCameraImages net s) = requests s"
  using shape_frame [OF fold_shape [of "updateSlot net" "[0..cameraCount (config s) - 1]" s, OF updateSlot_shape]]
  by (simp_all add: updateCameraImages_def updateStatus_def)


subsection \<open>Cycling\<close>

lemma js_rem_nonneg: "0 \<le> a \<Longrightarrow> 0 < b \<Longrightarrow> js_rem a b = a mod b"
  by (cases "a = 0") (simp_all add: js_rem_def)

lemma getFilteredCameras_cong:
  "cameras s' = cameras s \<Longrightarrow> config s' = config s \<Longrightarrow> getFilteredCameras s' = getFilteredCameras s"
  by (simp add: getFilteredCameras_def Let_def cong: if_cong)

lemma digit_char: "d < 10 \<Longrightarrow> of_char (char_of (48 + d :: nat)) = (48 + d :: nat)"
  by simp

lemma digit_char_range: "d < 10 \<Longrightarrow> CHR ''0'' \<le> char_of (48 + d :: nat) \<and> char_of (48 + d :: nat) \<le> CHR ''9''"
  by (simp add: less_eq_char_def)

lemma showNat_digits: "\<forall>c \<in> set (showNat n). CHR ''0'' \<le> c \<and> c \<le> CHR ''9''"
proof (induction n rule: showNat.induct)
  case (1 n)
  show ?case
  proof (cases "n < 10")
    case True
    then show ?thesis using digit_char_range [of n] by (subst showNat.simps) simp
  next
    case False
    then show ?thesis
      using 1 digit_char_range [of "n mod 10"] by (subst showNat.simps) simp
  qed
qed

lemma showNat_value:
  "foldl (\<lambda>acc c. 10 * acc + (int (of_char c) - 48)) 0 (showNat n) = int n"
proof (induction n rule: showNat.induct)
  case (1 n)
  show ?case
  proof (cases "n < 10")
    case True
    then show ?thesis by (subst showNat.simps) simp
  next
    case False
    have "10 * int (n div 10) + int (n mod 10) = int n" by presburger
    then show ?thesis
      using False 1 by (subst showNat.simps) simp
  qed
qed

lemma digitsValue_showNat: "digitsValue (showNat n) = Some (int n)"
  using showNat_digits [of n] showNat_value [of n] by (simp add: digitsValue_def)

lemma onpageloadRound_reset:
  "fst (onpageloadRound st (start, end)) =
     (if storedAtMost (st ''camerasInOulu'') end then (0, 4) else (start, end))"
  by (simp add: onpageloadRound_def)

text \<open>
  Claim C4. On an empty filtered list \<open>cycleCameras\<close> returns the state as it is. On a
  non-empty one it leaves the filtered list alone and sets \<open>currentCycleIndex\<close> to
  \<open>(currentCycleIndex + cameraCount) % length\<close>; for an index and a camera count that
  are not negative this is the remainder \<open>mod\<close>, and the new index is at least 0 and
  below the length. (The constructor sets the index to 0 and the camera count to 4, and
  every event with a camera count that is not negative keeps both from being
  negative: \<open>handle_keeps_index_nonneg\<close> below.) In the jQuery variant's loop, a stored
  count \<open>n\<close> that the window's end reaches or exceeds (\<open>n \<le> end\<close>) resets the window to
  \<open>(0, 4)\<close>.
\<close>

theorem cycleCameras_index:
  "(getFilteredCameras s = [] \<longrightarrow> cycleCameras net s = s)
   \<and> (getFilteredCameras s \<noteq> [] \<longrightarrow>
        getFilteredCameras (cycleCameras net s) = getFilteredCameras s
        \<and> currentCycleIndex (cycleCameras net s) =
            js_rem (currentCycleIndex s + cameraCount (config s)) (int (length (getFilteredCameras s))))
   \<and> (getFilteredCameras s \<noteq> [] \<and> 0 \<le> currentCycleIndex s \<and> 0 \<le> cameraCount (config s) \<longrightarrow>
        currentCycleIndex (cycleCameras net s) =
          (currentCycleIndex s + cameraCount (config s)) mod int (length (getFilteredCameras s))
        \<and> 0 \<le> currentCycleIndex (cycleCameras net s)
        \<and> currentCycleIndex (cycleCameras net s) < int (length (getFilteredCameras (cycleCameras net s))))
   \<and> (st ''camerasInOulu'' = Some (showNat n) \<and> int n \<le> end \<longrightarrow>
        onpageloadRound st (start, end) = ((0, 4), (4, 8)))"
proof -
  have empty: "getFilteredCameras s = [] \<longrightarrow> cycleCameras net s = s"
    by (simp add: cycleCameras_def)
  let ?s1 = "s\<lparr>currentCycleIndex :=
               js_rem (currentCycleIndex s + cameraCount (config s))
                      (int (length (getFilteredCameras s)))\<rparr>"
  have f1: "getFilteredCameras ?s1 = getFilteredCameras s"
    by (rule getFilteredCameras_cong) simp_all
  have step: "getFilteredCameras s \<noteq> [] \<Longrightarrow> cycleCameras net s = loadCameraImages net ?s1"
    by (simp add: cycleCameras_def Let_def)
  have same: "getFilteredCameras s \<noteq> [] \<Longrightarrow>
      getFilteredCameras (cycleCameras net s) = getFilteredCameras s"
    using f1 by (simp add: step getFilteredCameras_cong [of "loadCameraImages net ?s1" ?s1]
        loadCameraImages_frame)
  have idx: "getFilteredCameras s \<noteq> [] \<Longrightarrow>
      currentCycleIndex (cycleCameras net s) =
        js_rem (currentCycleIndex s + cameraCount (config s)) (int (length (getFilteredCameras s)))"
    by (simp add: step loadCameraImages_frame)
  have rng: "getFilteredCameras s \<noteq> [] \<Longrightarrow> 0 \<le> currentCycleIndex s \<Longrightarrow>
      0 \<le> cameraCount (config s) \<Longrightarrow>
      currentCycleIndex (cycleCameras net s) =
          (currentCycleIndex s + cameraCount (config s)) mod int (length (getFilteredCameras s))
        \<and> 0 \<le> currentCycleIndex (cycleCameras net s)
        \<and> currentCycleIndex (cycleCameras net s) < int (length (getFilteredCameras (cycleCameras net s)))"
    using idx same by (simp add: js_rem_nonneg)
  have jq: "st ''camerasInOulu'' = Some (showNat n) \<and> int n \<le> end \<longrightarrow>
        onpageloadRound st (start, end) = ((0, 4), (4, 8))"
    by (simp add: onpageloadRound_def storedAtMost_def digitsValue_showNat)
  show ?thesis
    using empty same idx rng jq by blast
qed

theorem cycleCameras_index_witness:
  "getFilteredCameras (constructed False [] None :: (int, int \<times> int) controller) = []
   \<and> cycleCameras (\<lambda>k u. True) (constructed False [] None :: (int, int \<times> int) controller)
       = constructed False [] None
   \<and> getFilteredCameras exampleController \<noteq> []
   \<and> 0 \<le> currentCycleIndex exampleController
   \<and> 0 \<le> cameraCount (config exampleController)
   \<and> currentCycleIndex (cycleCameras (\<lambda>k u. True) exampleController) = 2
   \<and> [''camerasInOulu'' \<mapsto> showNat 7] ''camerasInOulu'' = Some (showNat 7) \<and> int 7 \<le> 8
   \<and> onpageloadRound [''camerasInOulu'' \<mapsto> showNat 7] (4, 8) = ((0, 4), (4, 8))"
proof -
  have e: "getFilteredCameras (constructed False [] None :: (int, int \<times> int) controller) = []"
    by (simp add: getFilteredCameras_def constructed_def defaultConfig_def)
  have n: "getFilteredCameras exampleController \<noteq> []"
    "length (getFilteredCameras exampleController) = 3"
    "currentCycleIndex exampleController = 0"
    "cameraCount (config exampleController) = 2"
    by (simp_all add: getFilteredCameras_def exampleController_def constructed_def defaultConfig_def)
  show ?thesis
    using cycleCameras_index [of "constructed False [] None :: (int, int \<times> int) controller"
        "\<lambda>k u. True" "[''camerasInOulu'' \<mapsto> showNat 7]" 7 8 4]
      cycleCameras_index [of exampleController "\<lambda>k u. True" "[''camerasInOulu'' \<mapsto> showNat 7]" 7 8 4]
      e n
    by simp
qed


subsection \<open>Locked containers\<close>

lemma loadSingleCamera_other:
  "k \<noteq> i \<Longrightarrow>
     currentImages (loadSingleCamera net k c s) i = currentImages s i
     \<and> cameraGrid (loadSingleCamera net k c s) i = cameraGrid s i
     \<and> filter (\<lambda>p. fst p = i) (imageLoads (loadSingleCamera net k c s)) =
         filter (\<lambda>p. fst p = i) (imageLoads s)"
  by (simp add: loadSingleCamera_def Let_def split: option.split tile.split)

lemma loadSingleCamera_locked:
  "lockedCameras (loadSingleCamera net k c s) = lockedCameras s"
  by (simp add: loadSingleCamera_def Let_def split: option.split tile.split)

text \<open>What a locked slot that holds an image keeps.\<close>

lemma loadSlot_keeps:
  assumes "i \<in> lockedCameras s" "currentImages s i \<noteq> None"
  shows "i \<in> lockedCameras (loadSlot net av k s)
     \<and> currentImages (loadSlot net av k s) i = currentImages s i
     \<and> cameraGrid (loadSlot net av k s) i = cameraGrid s i
     \<and> filter (\<lambda>p. fst p = i) (imageLoads (loadSlot net av k s)) =
         filter (\<lambda>p. fst p = i) (imageLoads s)"
proof (cases "k = i")
  case True
  then show ?thesis using assms by (simp add: loadSlot_def)
next
  case False
  then show ?thesis
    using assms loadSingleCamera_other [OF False, of net _ s]
    by (simp add: loadSlot_def Let_def loadSingleCamera_locked split: option.split)
qed

lemma fold_loadSlot_keeps:
  assumes "i \<in> lockedCameras s" "currentImages s i \<noteq> None"
  shows "i \<in> lockedCameras (fold (loadSlot net av) ks s)
     \<and> currentImages (fold (loadSlot net av) ks s) i = currentImages s i
     \<and> cameraGrid (fold (loadSlot net av) ks s) i = cameraGrid s i
     \<and> filter (\<lambda>p. fst p = i) (imageLoads (fold (loadSlot net av) ks s)) =
         filter (\<lambda>p. fst p = i) (imageLoads s)"
  using assms
proof (induction ks arbitrary: s)
  case Nil
  then show ?case by simp
next
  case (Cons k ks)
  have step: "i \<in> lockedCameras (loadSlot net av k s)
     \<and> currentImages (loadSlot net av k s) i = currentImages s i
     \<and> cameraGrid (loadSlot net av k s) i = cameraGrid s i
     \<and> filter (\<lambda>p. fst p = i) (imageLoads (loadSlot net av k s)) =
         filter (\<lambda>p. fst p = i) (imageLoads s)"
    using Cons.prems by (rule loadSlot_keeps)
  then have "i \<in> lockedCameras (loadSlot net av k s)"
    and "currentImages (loadSlot net av k s) i \<noteq> None"
    using Cons.prems by simp_all
  from Cons.IH [OF this] step show ?case by simp
qed

lemma loadCameraImages_keeps:
  assumes "i \<in> lockedCameras s" "currentImages s i \<noteq> None"
  shows "i \<in> lockedCameras (loadCameraImages net s)
     \<and> currentImages (loadCameraImages net s) i = currentImages s i
     \<and> cameraGrid (loadCameraImages net s) i = cameraGrid s i
     \<and> filter (\<lambda>p. fst p = i) (imageLoads (loadCameraImages net s)) =
         filter (\<lambda>p. fst p = i) (imageLoads s)"
  unfolding loadCameraImages_def Let_def using assms by (rule fold_loadSlot_keeps)

lemma updateSlot_keeps:
  assumes "i \<in> lockedCameras s"
  shows "i \<in> lockedCameras (updateSlot net k s)
     \<and> currentImages (updateSlot net k s) i = currentImages s i
     \<and> cameraGrid (updateSlot net k s) i = cameraGrid s i
     \<and> filter (\<lambda>p. fst p = i) (imageLoads (updateSlot net k s)) =
         filter (\<lambda>p. fst p = i) (imageLoads s)"
proof (cases "k = i")
  case True
  then show ?thesis
    using assms by (simp add: updateSlot_def split: option.split tile.split)
next
  case False
  then show ?thesis
    using assms loadSingleCamera_other [OF False, of net _ s]
    by (simp add: updateSlot_def loadSingleCamera_locked split: option.split tile.split)
qed

lemma fold_updateSlot_keeps:
  assumes "i \<in> lockedCameras s"
  shows "i \<in> lockedCameras (fold (updateSlot net) ks s)
     \<and> currentImages (fold (updateSlot net) ks s) i = currentImages s i
     \<and> cameraGrid (fold (updateSlot net) ks s) i = cameraGrid s i
     \<and> filter (\<lambda>p. fst p = i) (imageLoads (fold (updateSlot net) ks s)) =
         filter (\<lambda>p. fst p = i) (imageLoads s)"
  using assms
proof (induction ks arbitrary: s)
  case Nil
  then show ?case by simp
next
  case (Cons k ks)
  have step: "i \<in> lockedCameras (updateSlot net k s)
     \<and> currentImages (updateSlot net k s) i = currentImages s i
     \<and> cameraGrid (updateSlot net k s) i = cameraGrid s i
     \<and> filter (\<lambda>p. fst p = i) (imageLoads (updateSlot net k s)) =
         filter (\<lambda>p. fst p = i) (imageLoads s)"
    using Cons.prems by (rule updateSlot_keeps)
  then have "i \<in> lockedCameras (updateSlot net k s)" by simp
  from Cons.IH [OF this] step show ?case by simp
qed

lemma updateCameraImages_keeps:
  assumes "i \<in> lockedCameras s"
  shows "i \<in> lockedCameras (updateCameraImages net s)
     \<and> currentImages (updateCameraImages net s) i = currentImages s i
     \<and> cameraGrid (updateCameraImages net s) i = cameraGrid s i
     \<and> filter (\<lambda>p. fst p = i) (imageLoads (updateCameraImages net s)) =
         filter (\<lambda>p. fst p = i) (imageLoads s)"
  using fold_updateSlot_keeps [OF assms, of net "[0..cameraCount (config s) - 1]"]
  by (simp add: updateCameraImages_def updateStatus_def)

lemma cycleCameras_keeps:
  assumes "i \<in> lockedCameras s" "currentImages s i \<noteq> None"
  shows "i \<in> lockedCameras (cycleCameras net s)
     \<and> currentImages (cycleCameras net s) i = currentImages s i
     \<and> cameraGrid (cycleCameras net s) i = cameraGrid s i
     \<and> filter (\<lambda>p. fst p = i) (imageLoads (cycleCameras net s)) =
         filter (\<lambda>p. fst p = i) (imageLoads s)"
proof (cases "getFilteredCameras s = []")
  case True
  then show ?thesis using assms by (simp add: cycleCameras_def)
next
  case False
  let ?s1 = "s\<lparr>currentCycleIndex :=
               js_rem (currentCycleIndex s + cameraCount (config s))
                      (int (length (getFilteredCameras s)))\<rparr>"
  have "i \<in> lockedCameras ?s1" "currentImages ?s1 i \<noteq> None" using assms by simp_all
  from loadCameraImages_keeps [OF this, of net] False show ?thesis
    by (simp add: cycleCameras_def Let_def)
qed

text \<open>
  The three methods that skip locked containers. For a container \<open>i\<close> that is locked
  and holds an image, \<open>loadCameraImages\<close> and \<open>cycleCameras\<close> leave \<open>currentImages[i]\<close>
  and the container's content as they are, and the lock stays. For a locked container
  \<open>updateCameraImages\<close> issues no image load (the loads logged for \<open>i\<close> are the ones
  logged before) and leaves its entry and its content as they are.
\<close>

theorem locked_slot_frozen:
  "(i \<in> lockedCameras s \<and> currentImages s i \<noteq> None \<longrightarrow>
      currentImages (loadCameraImages net s) i = currentImages s i
      \<and> cameraGrid (loadCameraImages net s) i = cameraGrid s i
      \<and> currentImages (cycleCameras net s) i = currentImages s i
      \<and> cameraGrid (cycleCameras net s) i = cameraGrid s i
      \<and> i \<in> lockedCameras (cycleCameras net s))
   \<and> (i \<in> lockedCameras s \<longrightarrow>
      filter (\<lambda>p. fst p = i) (imageLoads (updateCameraImages net s)) =
        filter (\<lambda>p. fst p = i) (imageLoads s)
      \<and> currentImages (updateCameraImages net s) i = currentImages s i
      \<and> cameraGrid (updateCameraImages net s) i = cameraGrid s i
      \<and> i \<in> lockedCameras (updateCameraImages net s))"
  using loadCameraImages_keeps [of i s net] cycleCameras_keeps [of i s net]
    updateCameraImages_keeps [of i s net]
  by blast

theorem locked_slot_frozen_witness:
  "0 \<in> lockedCameras exampleController
   \<and> currentImages exampleController 0 \<noteq> None
   \<and> currentImages (cycleCameras (\<lambda>k u. True) exampleController) 0 = Some (exampleCamera ''a'' 900)
   \<and> cameraGrid (loadCameraImages (\<lambda>k u. True) exampleController) 0
       = Some (Showing (exampleCamera ''a'' 900))
   \<and> filter (\<lambda>p. fst p = 0) (imageLoads (updateCameraImages (\<lambda>k u. True) exampleController)) = []"
proof -
  have l: "0 \<in> lockedCameras exampleController"
    "currentImages exampleController 0 = Some (exampleCamera ''a'' 900)"
    "cameraGrid exampleController 0 = Some (Showing (exampleCamera ''a'' 900))"
    "imageLoads exampleController = []"
    by (simp_all add: exampleController_def constructed_def)
  show ?thesis
    using locked_slot_frozen [of 0 exampleController "\<lambda>k u. True"] l by simp
qed

text \<open>A re-render rebuilds the grid's elements, also the locked ones, but keeps the entry
  of a locked container that holds an image.\<close>

lemma renderCameras_keeps_entry:
  assumes "i \<in> lockedCameras s" "currentImages s i \<noteq> None"
  shows "currentImages (renderCameras net s) i = currentImages s i"
proof (cases "getFilteredCameras s = []")
  case True
  then show ?thesis by (simp add: renderCameras_def)
next
  case False
  then obtain g where r: "renderCameras net s = loadCameraImages net (s\<lparr>cameraGrid := g\<rparr>)"
    by (simp add: renderCameras_def Let_def)
  have "i \<in> lockedCameras (s\<lparr>cameraGrid := g\<rparr>)" "currentImages (s\<lparr>cameraGrid := g\<rparr>) i \<noteq> None"
    using assms by simp_all
  from loadCameraImages_keeps [OF this, of net] show ?thesis
    by (simp add: r)
qed

text \<open>The rebuilt element of such a container is the spinner, and the loop that follows
  skips it.\<close>

lemma renderCameras_rebuilds_locked:
  assumes "i \<in> lockedCameras s" "currentImages s i \<noteq> None"
    and "0 \<le> i" "i < cameraCount (config s)" "i < int (length (getFilteredCameras s))"
  shows "cameraGrid (renderCameras net s) i = Some Loading"
proof -
  let ?n = "min (cameraCount (config s)) (int (length (getFilteredCameras s)))"
  let ?g = "\<lambda>k. if 0 \<le> k \<and> k < ?n then Some Loading
               else if ?n \<le> k \<and> k < getOptimalGridSize ?n then Some Placeholder
               else None"
  have ne: "getFilteredCameras s \<noteq> []" using assms(3,5) by auto
  then have r: "renderCameras net s = loadCameraImages net (s\<lparr>cameraGrid := ?g\<rparr>)"
    by (simp add: renderCameras_def Let_def)
  have "i \<in> lockedCameras (s\<lparr>cameraGrid := ?g\<rparr>)" "currentImages (s\<lparr>cameraGrid := ?g\<rparr>) i \<noteq> None"
    using assms(1,2) by simp_all
  from loadCameraImages_keeps [OF this, of net]
  have "cameraGrid (renderCameras net s) i = ?g i" by (simp add: r)
  then show ?thesis using assms(3,4,5) by simp
qed

text \<open>
  Claim C8. The claim is that cycling and periodic refresh never replace the camera
  shown in a locked container. The code keeps it through \<open>cycleCameras\<close> and
  \<open>updateCameraImages\<close> (above), but not through the full reload that
  \<open>startPeriodicUpdates\<close> runs every 30 minutes: \<open>loadCameras\<close> calls \<open>processCameras\<close>
  and \<open>renderCameras\<close>, which empties the grid and rebuilds every container with its
  spinner, and \<open>loadCameraImages\<close> then skips the locked container because
  \<open>currentImages\<close> still holds its camera. In the run below container 0 shows preset
  \<open>p2\<close> and is locked; after the reload it shows the spinner, no image has been loaded
  for it since the first load, and it still shows the spinner after the next cycle
  and the next image update.
\<close>

theorem reload_rebuilds_locked_container:
  "cameraGrid lockedExample 0 =
     Some (Showing (processedCamera 20000000 ''Oulu'' (hd exampleResponse)
                      (examplePreset ''p2'' 19500000)))
   \<and> 0 \<in> lockedCameras lockedExample
   \<and> cameraGrid reloadedExample 0 = Some Loading
   \<and> 0 \<in> lockedCameras reloadedExample
   \<and> filter (\<lambda>p. fst p = 0) (imageLoads reloadedExample) = [(0, ''img/p2'')]
   \<and> cameraGrid
        (handle exampleTurf 21860000 imagesLoad ImageUpdateTimer
           (handle exampleTurf 21805000 imagesLoad CycleTimer reloadedExample)) 0 = Some Loading"
  by code_simp

subsection \<open>Ingestion\<close>

lemma mset_insertSorted: "mset (insertSorted cmp x ys) = add_mset x (mset ys)"
  by (induction ys) (simp_all split: option.split)

lemma mset_arraySort: "mset (arraySort cmp xs) = mset xs"
  by (induction xs) (simp_all add: arraySort_def mset_insertSorted)

lemma mset_filterCameras:
  "mset (filterCameras d now xs) =
     mset (if d then filter (newerThan (now - 14400000)) xs else xs)"
  by (simp add: filterCameras_def Let_def mset_arraySort)

lemma set_newSet: "set (newSet seen xs) = set seen \<union> set xs"
  by (induction xs arbitrary: seen) auto

lemma distinct_newSet: "distinct seen \<Longrightarrow> distinct (newSet seen xs)"
  by (induction xs arbitrary: seen) auto

lemma populateSelectors_frame:
  "cameras (populateSelectors s) = cameras s"
  "allCameras (populateSelectors s) = allCameras s"
  "config (populateSelectors s) = config s"
  "sessionStorage (populateSelectors s) = sessionStorage s"
  "localStorage (populateSelectors s) = localStorage s"
  "requests (populateSelectors s) = requests s"
  by (simp_all add: populateSelectors_def Let_def)

lemma populateSelectors_names:
  "map optionValue (tl (selectedMunicipalityOptions (populateSelectors s))) =
     sort (newSet [] (map municipality (cameras s)))"
  "map optionValue (tl (selectedStationOptions (populateSelectors s))) =
     sort (newSet [] (map stationName (cameras s)))"
  by (simp_all add: populateSelectors_def Let_def o_def)

text \<open>The state \<open>processCameras\<close> hands to \<open>populateSelectors\<close>.\<close>

lemma processCameras_fields:
  fixes s :: "('n, 'g) controller"
  defines "processed \<equiv> \<lambda>(turf :: ('n, 'g, 'pt, 'pg) turf) now raw.
     concat (map (\<lambda>camera.
        map (processedCamera now
               (getMunicipalityForCamera turf (municipalityData s)
                  (station.lat camera) (station.lon camera)) camera)
            (presets camera)) raw)"
  shows "allCameras (processCameras turf now net raw s) = processed turf now raw"
    and "cameras (processCameras turf now net raw s) =
           filterCameras (dropOldCameras (config s)) now (processed turf now raw)"
    and "map optionValue (tl (selectedMunicipalityOptions (processCameras turf now net raw s))) =
           sort (newSet [] (map municipality (cameras (processCameras turf now net raw s))))"
    and "map optionValue (tl (selectedStationOptions (processCameras turf now net raw s))) =
           sort (newSet [] (map stationName (cameras (processCameras turf now net raw s))))"
  unfolding processed_def
  by (simp_all add: processCameras_def Let_def updateStatus_def renderCameras_frame
      populateSelectors_frame populateSelectors_names)

lemma processCameras_frame:
  "sessionStorage (processCameras turf now net raw s) = sessionStorage s"
  "localStorage (processCameras turf now net raw s) = localStorage s"
  "requests (processCameras turf now net raw s) = requests s"
  by (simp_all add: processCameras_def Let_def updateStatus_def renderCameras_frame
      populateSelectors_frame)

lemma presetIds_processed:
  "map presetId (filter (newerThan c)
       (concat (map (\<lambda>camera. map (processedCamera now (m camera) camera) (presets camera)) raw))) =
   map presetId (filter (newerThan c) (concat (map presets raw)))"
proof (induction raw)
  case Nil
  then show ?case by simp
next
  case (Cons camera raw)
  have "map presetId (filter (newerThan c) (map (processedCamera now (m camera) camera) ps)) =
        map presetId (filter (newerThan c) ps)" for ps
    by (induction ps) (simp_all add: newerThan_def processedCamera_def)
  then show ?case using Cons by simp
qed

lemma presetIds_processed_all:
  "map presetId
       (concat (map (\<lambda>camera. map (processedCamera now (m camera) camera) (presets camera)) raw)) =
   map presetId (concat (map presets raw))"
  by (induction raw) (simp_all add: processedCamera_def o_def)

text \<open>
  Claim C5, as amended. \<open>processCameras\<close> removes no duplicate: \<open>this.cameras\<close> holds
  one entry for every preset of the response (for every preset less than 4 hours old
  when \<open>dropOldCameras\<close> is set), so its \<open>presetId\<close>s repeat exactly as those presets'
  do. The names in the municipality selector and in the station selector, after the
  leading "All" option, are pairwise different.
\<close>

theorem processCameras_one_entry_per_preset:
  "distinct (map optionValue (tl (selectedMunicipalityOptions (processCameras turf now net raw s))))
   \<and> distinct (map optionValue (tl (selectedStationOptions (processCameras turf now net raw s))))
   \<and> mset (map presetId (cameras (processCameras turf now net raw s))) =
       mset (map presetId
         (if dropOldCameras (config s)
          then filter (\<lambda>p. \<exists>t. measuredTime p = Some t \<and> now - t < 14400000) (concat (map presets raw))
          else concat (map presets raw)))"
proof -
  let ?s' = "processCameras turf now net raw s"
  let ?m = "\<lambda>camera. getMunicipalityForCamera turf (municipalityData s)
                  (station.lat camera) (station.lon camera)"
  let ?processed = "concat (map (\<lambda>camera. map (processedCamera now (?m camera) camera) (presets camera)) raw)"
  have d1: "distinct (map optionValue (tl (selectedMunicipalityOptions ?s')))"
    by (simp add: processCameras_fields distinct_newSet)
  have d2: "distinct (map optionValue (tl (selectedStationOptions ?s')))"
    by (simp add: processCameras_fields distinct_newSet)
  have "mset (cameras ?s') =
        mset (if dropOldCameras (config s)
              then filter (newerThan (now - 14400000)) ?processed else ?processed)"
    by (simp add: processCameras_fields(2) mset_filterCameras)
  then have "image_mset presetId (mset (cameras ?s')) =
        image_mset presetId (mset (if dropOldCameras (config s)
              then filter (newerThan (now - 14400000)) ?processed else ?processed))"
    by (rule arg_cong)
  then have "mset (map presetId (cameras ?s')) =
        mset (map presetId (if dropOldCameras (config s)
                            then filter (newerThan (now - 14400000)) ?processed else ?processed))"
    by simp
  also have "map presetId (if dropOldCameras (config s)
                            then filter (newerThan (now - 14400000)) ?processed else ?processed) =
             map presetId (if dropOldCameras (config s)
                            then filter (newerThan (now - 14400000)) (concat (map presets raw))
                            else concat (map presets raw))"
    using presetIds_processed [of "now - 14400000" now ?m raw] presetIds_processed_all [of now ?m raw]
    by (cases "dropOldCameras (config s)") simp_all
  also have "filter (newerThan (now - 14400000)) (concat (map presets raw)) =
       filter (\<lambda>p. \<exists>t. measuredTime p = Some t \<and> now - t < 14400000) (concat (map presets raw))"
    by (rule filter_cong) (simp_all add: newerThan_iff)
  finally show ?thesis using d1 d2 by simp
qed

text \<open>
  Claim C5 as stated fails: a response whose station lists two presets with the same
  \<open>presetId\<close>, both fresh, leaves two entries with that \<open>presetId\<close> in \<open>this.cameras\<close>.
\<close>

theorem processCameras_duplicate_presetId:
  "map presetId
     (cameras (processCameras exampleTurf 1000 imagesLoad
        [exampleStation ''C_Oulu_A'' [examplePreset ''p1'' 900, examplePreset ''p1'' 950]]
        (constructed False [] (Some 5000)))) = [''p1'', ''p1'']"
  by (simp add: processCameras_fields constructed_def defaultConfig_def exampleStation_def
      examplePreset_def filterCameras_def Let_def newerThan_def arraySort_def byFreshness_def
      processedCamera_def)

subsection \<open>Storage and requests\<close>

lemma updateCycleTimeOptions_frame:
  "sessionStorage (updateCycleTimeOptions s) = sessionStorage s"
  "localStorage (updateCycleTimeOptions s) = localStorage s"
  "requests (updateCycleTimeOptions s) = requests s"
  by (simp_all add: updateCycleTimeOptions_def Let_def)

lemma toggleCameraLock_frame:
  "sessionStorage (toggleCameraLock i s) = sessionStorage s"
  "localStorage (toggleCameraLock i s) = localStorage s"
  "requests (toggleCameraLock i s) = requests s"
  by (simp_all add: toggleCameraLock_def split: option.split tile.split)

lemma cycleCameras_frame:
  "sessionStorage (cycleCameras net s) = sessionStorage s"
  "localStorage (cycleCameras net s) = localStorage s"
  "requests (cycleCameras net s) = requests s"
  by (simp_all add: cycleCameras_def Let_def loadCameraImages_frame)

lemma setupMobileRestrictions_frame:
  "sessionStorage (setupMobileRestrictions net s) = sessionStorage s"
  "localStorage (setupMobileRestrictions net s) = localStorage s"
  "requests (setupMobileRestrictions net s) = requests s"
  by (simp_all add: setupMobileRestrictions_def renderCameras_frame)

lemma loadMunicipalityData_frame:
  "sessionStorage (fst (loadMunicipalityData r s)) = sessionStorage s"
  "localStorage (fst (loadMunicipalityData r s)) = localStorage s"
  "requests (fst (loadMunicipalityData r s)) =
     requests s @ [\<lparr>httpMethod = ''GET'', url = municipalityUrl\<rparr>]"
  by (simp_all add: loadMunicipalityData_def Let_def updateStatus_def split: fetched.split)

lemma loadCameras_frame:
  "sessionStorage (fst (loadCameras turf now net r s)) = sessionStorage s"
  "localStorage (fst (loadCameras turf now net r s)) = localStorage s"
  "requests (fst (loadCameras turf now net r s)) =
     requests s @ [\<lparr>httpMethod = ''POST'', url = cameraApiUrl\<rparr>]"
  by (simp_all add: loadCameras_def Let_def updateStatus_def processCameras_frame
      split: fetched.split)

lemma loadMunicipalityData_error:
  "snd (loadMunicipalityData r s) = None \<longleftrightarrow> (\<exists>features. r = Json features)"
  by (simp add: loadMunicipalityData_def Let_def split: fetched.split)

lemma handle_storage:
  "sessionStorage (handle turf now net ev s) = sessionStorage s
   \<and> localStorage (handle turf now net ev s) = localStorage s"
  by (cases ev)
    (simp_all add: renderCameras_frame updateCycleTimeOptions_frame toggleCameraLock_frame
      cycleCameras_frame updateCameraImages_frame setupMobileRestrictions_frame
      loadCameras_frame refreshCurrentImages_def)

lemma init_fields:
  "sessionStorage (init loaded turf now net mr cr s) = sessionStorage s"
  "localStorage (init loaded turf now net mr cr s) = localStorage s"
  "requests (init loaded turf now net mr cr s) =
     requests s @
       (if \<not> loaded then []
        else case mr of
               Json features \<Rightarrow> [\<lparr>httpMethod = ''GET'', url = municipalityUrl\<rparr>,
                                  \<lparr>httpMethod = ''POST'', url = cameraApiUrl\<rparr>]
             | _ \<Rightarrow> [\<lparr>httpMethod = ''GET'', url = municipalityUrl\<rparr>])"
proof -
  obtain s1 e1 where 1: "loadMunicipalityData mr s = (s1, e1)" by (cases "loadMunicipalityData mr s")
  obtain s2 e2 where 2: "loadCameras turf now net cr s1 = (s2, e2)"
    by (cases "loadCameras turf now net cr s1")
  have f1: "sessionStorage s1 = sessionStorage s" "localStorage s1 = localStorage s"
    "requests s1 = requests s @ [\<lparr>httpMethod = ''GET'', url = municipalityUrl\<rparr>]"
    using loadMunicipalityData_frame [of mr s] 1 by simp_all
  have f2: "sessionStorage s2 = sessionStorage s1" "localStorage s2 = localStorage s1"
    "requests s2 = requests s1 @ [\<lparr>httpMethod = ''POST'', url = cameraApiUrl\<rparr>]"
    using loadCameras_frame [of turf now net cr s1] 2 by simp_all
  have e: "e1 = None \<longleftrightarrow> (\<exists>features. mr = Json features)"
    using loadMunicipalityData_error [of mr s] 1 by simp
  show "sessionStorage (init loaded turf now net mr cr s) = sessionStorage s"
    by (simp add: init_def 1 2 f1 f2 updateStatus_def setupMobileRestrictions_frame
        split: option.split)
  show "localStorage (init loaded turf now net mr cr s) = localStorage s"
    by (simp add: init_def 1 2 f1 f2 updateStatus_def setupMobileRestrictions_frame
        split: option.split)
  show "requests (init loaded turf now net mr cr s) =
     requests s @
       (if \<not> loaded then []
        else case mr of
               Json features \<Rightarrow> [\<lparr>httpMethod = ''GET'', url = municipalityUrl\<rparr>,
                                  \<lparr>httpMethod = ''POST'', url = cameraApiUrl\<rparr>]
             | _ \<Rightarrow> [\<lparr>httpMethod = ''GET'', url = municipalityUrl\<rparr>])"
    using e
    by (cases e1)
       (auto simp: init_def 1 2 f1 f2 updateStatus_def setupMobileRestrictions_frame
        split: option.split fetched.split)
qed

lemma conditionalRender_success_storage:
  "storage (fst (conditionalRender_success now a b arr page)) =
     (storage page)(''camerasInOulu'' \<mapsto>
        showNat (length (camerasInOulu_noOld now (concat (map presets (spliceYliIi
          (filter (\<lambda>e. str_includes (name e) ''_Oulu_'' \<or> str_includes (name e) ''-'') arr)))))))"
  by (simp add: conditionalRender_success_def Let_def split: prod.split)

text \<open>
  Claim C6, as amended. No event handler of the controller and no run of \<open>init\<close>
  changes \<open>sessionStorage\<close> or \<open>localStorage\<close>. The jQuery variant does write: the
  \<open>success\<close> callback of \<open>conditionalRender\<close> stores the number of fresh presets under
  the key \<open>camerasInOulu\<close> of \<open>sessionStorage\<close>, and changes no other key.
\<close>

theorem storage_written_only_by_jquery_variant:
  "sessionStorage (handle turf now net ev s) = sessionStorage s
   \<and> localStorage (handle turf now net ev s) = localStorage s
   \<and> sessionStorage (init loaded turf now net mr cr s) = sessionStorage s
   \<and> localStorage (init loaded turf now net mr cr s) = localStorage s
   \<and> storage (fst (conditionalRender_success now a b arr page)) =
       (storage page)(''camerasInOulu'' \<mapsto>
          showNat (length (camerasInOulu_noOld now (concat (map presets (spliceYliIi
            (filter (\<lambda>e. str_includes (name e) ''_Oulu_'' \<or> str_includes (name e) ''-'') arr)))))))"
  using handle_storage [of turf now net ev s] init_fields(1,2) [of loaded turf now net mr cr s]
    conditionalRender_success_storage [of now a b arr page]
  by simp

lemma showNat_4: "showNat (Suc (Suc (Suc (Suc 0)))) = ''4''"
  by code_simp

text \<open>
  Claim C6 as stated fails: after a response with four fresh presets the session
  storage, empty before, holds the count under \<open>camerasInOulu\<close>.
\<close>

theorem conditionalRender_writes_sessionStorage:
  "storage emptyPage ''camerasInOulu'' = None
   \<and> storage (fst (conditionalRender_success 1000 0 4
        [exampleStation ''C_Oulu_A''
           [examplePreset ''p1'' 900, examplePreset ''p2'' 910,
            examplePreset ''p3'' 920, examplePreset ''p4'' 930]]
        emptyPage)) ''camerasInOulu'' = Some ''4''"
  by (simp add: conditionalRender_success_storage emptyPage_def exampleStation_def
      examplePreset_def camerasInOulu_noOld_def notOld_def Let_def showNat_4)

text \<open>
  Claim C7, as amended. \<open>init\<close> issues no request when Turf.js is missing; otherwise it
  requests the municipality file (a GET of a relative URL), and when that gives JSON
  it then sends one POST to the GraphQL endpoint: two data requests, the camera data
  all from that one endpoint.
\<close>

theorem init_requests:
  "requests (init loaded turf now net mr cr s) =
     requests s @
       (if \<not> loaded then []
        else case mr of
               Json features \<Rightarrow> [\<lparr>httpMethod = ''GET'', url = municipalityUrl\<rparr>,
                                  \<lparr>httpMethod = ''POST'', url = cameraApiUrl\<rparr>]
             | _ \<Rightarrow> [\<lparr>httpMethod = ''GET'', url = municipalityUrl\<rparr>])"
  by (rule init_fields(3))

text \<open>
  Claim C7 as stated fails: with Turf.js loaded and both responses fine, \<open>init\<close> issues
  two data requests, to two URLs.
\<close>

theorem init_two_requests:
  "requests (init True exampleTurf 1000 imagesLoad (Json []) (Json [])
       (constructed False [] (Some 5000))) =
     [\<lparr>httpMethod = ''GET'', url = ''finnish-municipalities-wgs84.geojson''\<rparr>,
      \<lparr>httpMethod = ''POST'', url = ''https://api.oulunliikenne.fi/proxy/graphql''\<rparr>]"
  by (simp add: init_fields(3) constructed_def municipalityUrl_def cameraApiUrl_def)

subsection \<open>Cycle time limits\<close>





text \<open>The selector's value and \<open>config.cyclingInterval\<close> stay equal through
  \<open>updateCycleTimeOptions\<close> when the selector has an option for the minimum.\<close>

lemma updateCycleTimeOptions_millis:
  "map millis (cyclingIntervalOptions (updateCycleTimeOptions s)) =
     map millis (cyclingIntervalOptions s)"
  by (simp add: updateCycleTimeOptions_def Let_def o_def if_distrib [of millis] cong: if_cong)

lemma updateCycleTimeOptions_keeps_agreement:
  assumes "cyclingIntervalValue s = Some (cyclingInterval (config s))"
    and "minTimeFor (cameraCount (config s)) \<in> set (map millis (cyclingIntervalOptions s))"
  shows "cyclingIntervalValue (updateCycleTimeOptions s) =
           Some (cyclingInterval (config (updateCycleTimeOptions s)))"
proof -
  let ?opts = "map (\<lambda>opt. if millis opt < minTimeFor (cameraCount (config s))
                         then opt\<lparr>disabled := True, color := ''#9ca3af''\<rparr>
                         else opt\<lparr>disabled := False, color := []\<rparr>) (cyclingIntervalOptions s)"
  have "map millis ?opts = map millis (cyclingIntervalOptions s)"
    by (simp add: o_def if_distrib [of millis] cong: if_cong)
  then have "assignValue ?opts (minTimeFor (cameraCount (config s))) =
             Some (minTimeFor (cameraCount (config s)))"
    using assms(2) unfolding assignValue_def by simp
  then show ?thesis
    using assms(1) by (simp add: updateCycleTimeOptions_def Let_def)
qed

text \<open>So do they through every event, when the selector has an option for the minimum
  of a newly chosen camera count; and they are equal after the constructor on a page
  whose selector starts at the constructor's 5000.\<close>

lemma handle_keeps_agreement:
  assumes "cyclingIntervalValue s = Some (cyclingInterval (config s))"
    and "\<And>n. ev = CameraCountChange n \<Longrightarrow> minTimeFor n \<in> set (map millis (cyclingIntervalOptions s))"
  shows "cyclingIntervalValue (handle turf now net ev s) =
           Some (cyclingInterval (config (handle turf now net ev s)))"
proof (cases ev)
  case (CameraCountChange n)
  let ?s = "s\<lparr>config := (config s)\<lparr>cameraCount := n\<rparr>\<rparr>"
  have "cyclingIntervalValue ?s = Some (cyclingInterval (config ?s))"
    using assms(1) by simp
  moreover have "minTimeFor (cameraCount (config ?s)) \<in> set (map millis (cyclingIntervalOptions ?s))"
    using assms(2) [OF CameraCountChange] by simp
  ultimately have "cyclingIntervalValue (updateCycleTimeOptions ?s) =
           Some (cyclingInterval (config (updateCycleTimeOptions ?s)))"
    by (rule updateCycleTimeOptions_keeps_agreement)
  then show ?thesis using CameraCountChange by (simp add: renderCameras_frame)
next
  case (WindowResize mobile)
  then show ?thesis
    using assms(1)
    by (simp add: renderCameras_frame setupMobileRestrictions_def)
next
  case (LockButtonClick i)
  then show ?thesis
    using assms(1) by (simp add: toggleCameraLock_def split: option.split tile.split)
next
  case CycleTimer
  then show ?thesis
    using assms(1) by (simp add: cycleCameras_def Let_def loadCameraImages_frame)
next
  case ImageUpdateTimer
  then show ?thesis
    using assms(1)
      shape_frame [OF fold_shape [of "updateSlot net" "[0..cameraCount (config s) - 1]" s, OF updateSlot_shape]]
    by (simp add: updateCameraImages_def updateStatus_def)
next
  case (ReloadTimer r)
  then show ?thesis
    using assms(1)
    by (simp add: loadCameras_def Let_def updateStatus_def processCameras_def renderCameras_frame
        populateSelectors_def split: fetched.split)
qed (use assms(1) in \<open>simp_all add: renderCameras_frame refreshCurrentImages_def\<close>)

lemma constructed_agreement:
  "cyclingIntervalValue (constructed mobile opts (Some 5000)) =
     Some (cyclingInterval (config (constructed mobile opts (Some 5000))))"
  by (simp add: constructed_def defaultConfig_def)

subsection \<open>The index is never negative\<close>

lemma index_after_images:
  "currentCycleIndex (updateCameraImages net s) = currentCycleIndex s"
  "config (updateCameraImages net s) = config s"
  using shape_frame [OF fold_shape [of "updateSlot net" "[0..cameraCount (config s) - 1]" s, OF updateSlot_shape]]
  by (simp_all add: updateCameraImages_def updateStatus_def)

lemma index_after_processCameras:
  "currentCycleIndex (processCameras turf now net raw s) = currentCycleIndex s"
  "config (processCameras turf now net raw s) = config s"
  by (simp_all add: processCameras_def Let_def updateStatus_def renderCameras_frame
      populateSelectors_def)

lemma index_after_loadCameras:
  "currentCycleIndex (fst (loadCameras turf now net r s)) = currentCycleIndex s"
  "config (fst (loadCameras turf now net r s)) = config s"
  by (simp_all add: loadCameras_def Let_def updateStatus_def index_after_processCameras
      split: fetched.split)

lemma index_after_toggleCameraLock:
  "currentCycleIndex (toggleCameraLock i s) = currentCycleIndex s"
  "config (toggleCameraLock i s) = config s"
  by (simp_all add: toggleCameraLock_def split: option.split tile.split)

lemma index_after_updateCycleTimeOptions:
  "currentCycleIndex (updateCycleTimeOptions s) = currentCycleIndex s"
  "cameraCount (config (updateCycleTimeOptions s)) = cameraCount (config s)"
  by (simp_all add: updateCycleTimeOptions_def Let_def)

lemma index_after_setupMobileRestrictions:
  "currentCycleIndex (setupMobileRestrictions net s) = currentCycleIndex s"
  "0 \<le> cameraCount (config s) \<Longrightarrow> 0 \<le> cameraCount (config (setupMobileRestrictions net s))"
  by (simp_all add: setupMobileRestrictions_def renderCameras_frame)

lemma index_after_cycleCameras:
  assumes "0 \<le> currentCycleIndex s" "0 \<le> cameraCount (config s)"
  shows "0 \<le> currentCycleIndex (cycleCameras net s)"
    and "config (cycleCameras net s) = config s"
proof -
  show "config (cycleCameras net s) = config s"
    by (simp add: cycleCameras_def Let_def loadCameraImages_frame)
  show "0 \<le> currentCycleIndex (cycleCameras net s)"
  proof (cases "getFilteredCameras s = []")
    case True
    then show ?thesis using assms by (simp add: cycleCameras_def)
  next
    case False
    then have "0 < int (length (getFilteredCameras s))" by simp
    then have "0 \<le> js_rem (currentCycleIndex s + cameraCount (config s))
                     (int (length (getFilteredCameras s)))"
      using assms by (simp add: js_rem_nonneg)
    then show ?thesis
      using False by (simp add: cycleCameras_def Let_def loadCameraImages_frame)
  qed
qed

lemma handle_keeps_index_nonneg:
  assumes "0 \<le> currentCycleIndex s" "0 \<le> cameraCount (config s)" "countNotNegative ev"
  shows "0 \<le> currentCycleIndex (handle turf now net ev s)
     \<and> 0 \<le> cameraCount (config (handle turf now net ev s))"
proof (cases ev)
  case CycleTimer
  then show ?thesis using index_after_cycleCameras [OF assms(1,2)] assms(2) by simp
next
  case (WindowResize mobile)
  then show ?thesis
    using assms index_after_setupMobileRestrictions [where net = net and s = "s\<lparr>isMobile := mobile\<rparr>"]
    by (simp add: renderCameras_frame)
qed (use assms in \<open>simp_all add: renderCameras_frame index_after_updateCycleTimeOptions
      index_after_toggleCameraLock index_after_images index_after_loadCameras
      refreshCurrentImages_def\<close>)

lemma constructed_index_nonneg:
  "0 \<le> currentCycleIndex (constructed mobile opts v) \<and> 0 \<le> cameraCount (config (constructed mobile opts v))"
  by (simp add: constructed_def defaultConfig_def)

subsection \<open>Municipality lookup\<close>

lemma scanFeatures_Cons:
  "scanFeatures turf pt (f # rest) =
     (case featureContains turf pt f of
        Inl e \<Rightarrow> Inl e
      | Inr inside \<Rightarrow>
          if inside then map_sum id Some (nimiOrUnknown f) else scanFeatures turf pt rest)"
  by (simp add: featureContains_def split: option.split geometryType.split sum.split)

lemma scanFeatures_skip:
  "\<forall>g \<in> set pre. featureContains turf pt g = Inr False \<Longrightarrow>
     scanFeatures turf pt (pre @ rest) = scanFeatures turf pt rest"
  by (induction pre) (simp_all add: scanFeatures_Cons del: scanFeatures.simps(2))

lemma scanFeatures_none:
  "\<forall>g \<in> set fs. featureContains turf pt g = Inr False \<Longrightarrow> scanFeatures turf pt fs = Inr None"
  using scanFeatures_skip [of fs turf pt "[]"] by simp

lemma nimiOrUnknown_nameOf:
  "(case nimiOrUnknown f of Inl e \<Rightarrow> ''Unknown'' | Inr n \<Rightarrow> n) = nameOf f"
  by (simp add: nimiOrUnknown_def nameOf_def split: option.split)

lemma lookup_found:
  assumes "point turf (lo, la) = Inr pt"
    and "\<forall>g \<in> set pre. featureContains turf pt g = Inr False"
    and "featureContains turf pt f = Inr True"
  shows "getMunicipalityForCamera turf (Some (pre @ f # post)) la lo = nameOf f"
proof -
  have "scanFeatures turf pt (pre @ f # post) = map_sum id Some (nimiOrUnknown f)"
    using assms(2,3) by (simp add: scanFeatures_skip scanFeatures_Cons del: scanFeatures.simps(2))
  then show ?thesis
    using assms(1) nimiOrUnknown_nameOf [of f]
    by (cases "nimiOrUnknown f") (simp_all add: getMunicipalityForCamera_def)
qed

lemma lookup_throws:
  assumes "point turf (lo, la) = Inr pt"
    and "\<forall>g \<in> set pre. featureContains turf pt g = Inr False"
    and "featureContains turf pt f = Inl e"
  shows "getMunicipalityForCamera turf (Some (pre @ f # post)) la lo = ''Unknown''"
proof -
  have "scanFeatures turf pt (pre @ f # post) = Inl e"
    using assms(2,3) by (simp add: scanFeatures_skip scanFeatures_Cons del: scanFeatures.simps(2))
  then show ?thesis
    using assms(1) by (simp add: getMunicipalityForCamera_def)
qed

lemma lookup_nowhere:
  assumes "point turf (lo, la) = Inr pt"
    and "\<forall>g \<in> set fs. featureContains turf pt g = Inr False"
  shows "getMunicipalityForCamera turf (Some fs) la lo = ''Unknown''"
  using assms by (simp add: getMunicipalityForCamera_def scanFeatures_none)

text \<open>
  Claim C2, as amended. \<open>getMunicipalityForCamera\<close> returns \<open>'Unknown'\<close> when
  \<open>municipalityData\<close> is null and when the library throws on the point. Otherwise it
  scans the features in order: at the first \<open>Polygon\<close> or \<open>MultiPolygon\<close> feature
  whose geometry contains the point it returns the feature's \<open>nimi\<close> when that is
  present and not empty, and \<open>'Unknown'\<close> when the feature has no properties, no
  \<open>nimi\<close> or an empty one; it returns \<open>'Unknown'\<close> when the library throws on a
  feature before a containing one is found, and when no feature contains the point.
\<close>

theorem getMunicipalityForCamera_lookup:
  "getMunicipalityForCamera turf None la lo = ''Unknown''
   \<and> (point turf (lo, la) = Inl e \<longrightarrow> getMunicipalityForCamera turf (Some fs) la lo = ''Unknown'')
   \<and> (point turf (lo, la) = Inr pt \<and> (\<forall>g \<in> set pre. featureContains turf pt g = Inr False)
        \<and> featureContains turf pt f = Inr True \<longrightarrow>
          getMunicipalityForCamera turf (Some (pre @ f # post)) la lo = nameOf f)
   \<and> (point turf (lo, la) = Inr pt \<and> (\<forall>g \<in> set pre. featureContains turf pt g = Inr False)
        \<and> featureContains turf pt f = Inl e \<longrightarrow>
          getMunicipalityForCamera turf (Some (pre @ f # post)) la lo = ''Unknown'')
   \<and> (point turf (lo, la) = Inr pt \<and> (\<forall>g \<in> set fs. featureContains turf pt g = Inr False) \<longrightarrow>
          getMunicipalityForCamera turf (Some fs) la lo = ''Unknown'')
   \<and> (properties f = Some props \<and> nimi props = Some n \<and> n \<noteq> [] \<longrightarrow> nameOf f = n)
   \<and> (properties f = None \<or> (\<exists>p. properties f = Some p \<and> (nimi p = None \<or> nimi p = Some []))
        \<longrightarrow> nameOf f = ''Unknown'')"
proof -
  have 1: "getMunicipalityForCamera turf None la lo = ''Unknown''"
    by (simp add: getMunicipalityForCamera_def)
  have 2: "point turf (lo, la) = Inl e \<longrightarrow> getMunicipalityForCamera turf (Some fs) la lo = ''Unknown''"
    by (simp add: getMunicipalityForCamera_def)
  have 6: "properties f = Some props \<and> nimi props = Some n \<and> n \<noteq> [] \<longrightarrow> nameOf f = n"
    by (simp add: nameOf_def)
  have 7: "properties f = None \<or> (\<exists>p. properties f = Some p \<and> (nimi p = None \<or> nimi p = Some []))
        \<longrightarrow> nameOf f = ''Unknown''"
    by (auto simp: nameOf_def)
  show ?thesis
    using 1 2 6 7 lookup_found [of turf lo la pt pre f post]
      lookup_throws [of turf lo la pt pre f e post] lookup_nowhere [of turf lo la pt fs]
    by blast
qed

theorem getMunicipalityForCamera_lookup_witness:
  "getMunicipalityForCamera exampleTurf
       (Some [exampleFeature Polygon (50, 60) (Some ''Kempele''),
              exampleFeature MultiPolygon (0, 30) (Some ''Oulu''),
              exampleFeature Polygon (20, 40) (Some ''Ii'')]) 65 25 = ''Oulu''
   \<and> getMunicipalityForCamera exampleTurf
       (Some [exampleFeature Polygon (50, 60) (Some ''Kempele''),
              exampleFeature Polygon (9, 3) (Some ''Hailuoto''),
              exampleFeature Polygon (20, 40) (Some ''Ii'')]) 65 25 = ''Unknown''
   \<and> getMunicipalityForCamera exampleTurf
       (Some [exampleFeature Polygon (50, 60) (Some ''Kempele'')]) 65 25 = ''Unknown''
   \<and> getMunicipalityForCamera exampleTurf
       (Some [exampleFeature Polygon (0, 30) None]) 65 25 = ''Unknown''
   \<and> getMunicipalityForCamera exampleTurf
       (Some [exampleFeature Polygon (0, 30) (Some ''Oulu'')]) 100 25 = ''Unknown''"
proof -
  have pt: "point exampleTurf (25, 65) = Inr 25"
    "point exampleTurf (25, 100) = Inl TurfError"
    by (simp_all add: exampleTurf_def)
  have no: "featureContains exampleTurf 25 (exampleFeature Polygon (50, 60) (Some ''Kempele'')) = Inr False"
    by (simp add: featureContains_def exampleFeature_def exampleTurf_def)
  have yes: "featureContains exampleTurf 25 (exampleFeature MultiPolygon (0, 30) (Some ''Oulu'')) = Inr True"
    by (simp add: featureContains_def exampleFeature_def exampleTurf_def)
  have bad: "featureContains exampleTurf 25 (exampleFeature Polygon (9, 3) (Some ''Hailuoto'')) = Inl TurfError"
    by (simp add: featureContains_def exampleFeature_def exampleTurf_def)
  have anon: "featureContains exampleTurf 25 (exampleFeature Polygon (0, 30) None) = Inr True"
    by (simp add: featureContains_def exampleFeature_def exampleTurf_def)
  have names: "properties (exampleFeature MultiPolygon (0, 30) (Some ''Oulu'')) = Some \<lparr>nimi = Some ''Oulu''\<rparr>"
    "properties (exampleFeature Polygon (0, 30) None) = Some \<lparr>nimi = None\<rparr>"
    by (simp_all add: exampleFeature_def)
  have a: "getMunicipalityForCamera exampleTurf
       (Some ([exampleFeature Polygon (50, 60) (Some ''Kempele'')]
              @ exampleFeature MultiPolygon (0, 30) (Some ''Oulu'')
              # [exampleFeature Polygon (20, 40) (Some ''Ii'')])) 65 25 = ''Oulu''"
    using getMunicipalityForCamera_lookup
      [of exampleTurf 65 25 TurfError "[]" 25 "[exampleFeature Polygon (50, 60) (Some ''Kempele'')]"
        "exampleFeature MultiPolygon (0, 30) (Some ''Oulu'')"
        "[exampleFeature Polygon (20, 40) (Some ''Ii'')]" "\<lparr>nimi = Some ''Oulu''\<rparr>" "''Oulu''"]
      pt no yes names
    by simp
  have b: "getMunicipalityForCamera exampleTurf
       (Some ([exampleFeature Polygon (50, 60) (Some ''Kempele'')]
              @ exampleFeature Polygon (9, 3) (Some ''Hailuoto'')
              # [exampleFeature Polygon (20, 40) (Some ''Ii'')])) 65 25 = ''Unknown''"
    using getMunicipalityForCamera_lookup
      [of exampleTurf 65 25 TurfError "[exampleFeature Polygon (50, 60) (Some ''Kempele'')]" 25
        "[exampleFeature Polygon (50, 60) (Some ''Kempele'')]"
        "exampleFeature Polygon (9, 3) (Some ''Hailuoto'')"
        "[exampleFeature Polygon (20, 40) (Some ''Ii'')]"]
      pt no bad
    by simp
  have c: "getMunicipalityForCamera exampleTurf
       (Some [exampleFeature Polygon (50, 60) (Some ''Kempele'')]) 65 25 = ''Unknown''"
    using getMunicipalityForCamera_lookup
      [of exampleTurf 65 25 TurfError "[exampleFeature Polygon (50, 60) (Some ''Kempele'')]" 25]
      pt no
    by simp
  have d: "getMunicipalityForCamera exampleTurf
       (Some ([] @ exampleFeature Polygon (0, 30) None # [])) 65 25 = ''Unknown''"
    using getMunicipalityForCamera_lookup
      [of exampleTurf 65 25 TurfError "[]" 25 "[]" "exampleFeature Polygon (0, 30) None" "[]"]
      pt anon names
    by simp
  have e: "getMunicipalityForCamera exampleTurf
       (Some [exampleFeature Polygon (0, 30) (Some ''Oulu'')]) 100 25 = ''Unknown''"
    using getMunicipalityForCamera_lookup
      [of exampleTurf 100 25 TurfError "[exampleFeature Polygon (0, 30) (Some ''Oulu'')]"]
      pt
    by simp
  show ?thesis using a b c d e by simp
qed

text \<open>
  Claim C2 as stated fails: for a containing feature whose \<open>nimi\<close> is the empty string
  the result is \<open>'Unknown'\<close>, not the feature's \<open>nimi\<close>.
\<close>

theorem getMunicipalityForCamera_empty_nimi:
  "featureContains exampleTurf 25 (exampleFeature Polygon (0, 30) (Some [])) = Inr True
   \<and> properties (exampleFeature Polygon (0, 30) (Some [])) = Some \<lparr>nimi = Some []\<rparr>
   \<and> getMunicipalityForCamera exampleTurf (Some [exampleFeature Polygon (0, 30) (Some [])]) 65 25
       = ''Unknown''"
  by (simp add: getMunicipalityForCamera_def featureContains_def exampleFeature_def exampleTurf_def
      nimiOrUnknown_def)

end
